theory Spec2Isabelle
  imports Complex_Main "HOL-Library.Log_Nat"
begin

section \<open>JavaScript values used by the scoring engine\<close>

text \<open>
  A JavaScript \<open>number\<close> is NaN, an infinity, or a finite value. Finite values are kept
  as exact rationals; \<open>fl\<close> below rounds a rational to the nearest binary64 value, which
  is what a numeric literal of the source and \<open>Number(string)\<close> denote. The sign of zero
  is not kept: no comparison of the source observes it.
\<close>

datatype number = NaN | NegInf | Fin rat | PosInf

text \<open>The relational operators: every comparison with NaN is false.\<close>

fun num_less :: "number \<Rightarrow> number \<Rightarrow> bool" where
  "num_less NaN _ = False"
| "num_less _ NaN = False"
| "num_less PosInf _ = False"
| "num_less _ NegInf = False"
| "num_less NegInf _ = True"
| "num_less (Fin a) (Fin b) = (a < b)"
| "num_less (Fin a) PosInf = True"

definition isNaN :: "number \<Rightarrow> bool" where
  "isNaN x = (x = NaN)"

definition num_ge :: "number \<Rightarrow> number \<Rightarrow> bool" where
  "num_ge a b = (\<not> isNaN a \<and> \<not> isNaN b \<and> \<not> num_less a b)"

definition num_gt :: "number \<Rightarrow> number \<Rightarrow> bool" where
  "num_gt a b = num_less b a"

definition num_le :: "number \<Rightarrow> number \<Rightarrow> bool" where
  "num_le a b = (\<not> isNaN a \<and> \<not> isNaN b \<and> \<not> num_less b a)"

subsection \<open>Rounding to binary64\<close>

definition pow2 :: "int \<Rightarrow> rat" where
  "pow2 i = (if 0 \<le> i then 2 ^ nat i else 1 / 2 ^ nat (- i))"

definition round_half_even :: "rat \<Rightarrow> int" where
  "round_half_even x =
     (let f = \<lfloor>x\<rfloor>; d = x - of_int f
      in if d < 1 / 2 then f
         else if 1 / 2 < d then f + 1
         else if even f then f else f + 1)"

definition fl :: "rat \<Rightarrow> number" where
  "fl q =
     (if q = 0 then Fin 0
      else
        let a = \<bar>q\<bar>;
            n = fst (quotient_of a);
            d = snd (quotient_of a);
            k = bitlen n - bitlen d;
            e = (if pow2 k \<le> a then k else k - 1);
            p = max e (- 1022) - 52;
            m = round_half_even (a / pow2 p)
        in if 1024 \<le> e \<or> (e = 1023 \<and> m = 2 ^ 53)
           then (if q < 0 then NegInf else PosInf)
           else Fin ((if q < 0 then - 1 else 1) * of_int m * pow2 p))"

text \<open>
  Here \<open>e\<close> is the binary exponent of \<open>\<bar>q\<bar>\<close> (so \<open>2 ^ e \<le> \<bar>q\<bar> < 2 ^ (e + 1)\<close>), \<open>p\<close> the
  exponent of the last place (subnormal below \<open>2 ^ - 1022\<close>), \<open>m\<close> the significand rounded
  to nearest, ties to even; a value that rounds to \<open>2 ^ 1024\<close> or more is an infinity.
\<close>

subsection \<open>Strings: \<open>trim\<close>, \<open>split\<close>, \<open>Number(string)\<close>\<close>

text \<open>
  A string is a list of code units below 256. White space and line terminators in that
  range are TAB, LF, VT, FF, CR, SP and NBSP; \<open>trim\<close> and \<open>Number\<close> strip the same set.
\<close>

definition is_ws :: "char \<Rightarrow> bool" where
  "is_ws c = (c \<in> set [CHR 0x09, CHR 0x0A, CHR 0x0B, CHR 0x0C, CHR 0x0D, CHR 0x20, CHR 0xA0])"

definition trim :: "string \<Rightarrow> string" where
  "trim s = rev (dropWhile is_ws (rev (dropWhile is_ws s)))"

fun split :: "char \<Rightarrow> string \<Rightarrow> string list" where
  "split c [] = [[]]"
| "split c (x # xs) =
     (if x = c then [] # split c xs
      else (case split c xs of p # ps \<Rightarrow> (x # p) # ps | [] \<Rightarrow> [[x]]))"

definition digit_val :: "char \<Rightarrow> nat option" where
  "digit_val c =
     (let n = of_char c :: nat
      in if 48 \<le> n \<and> n \<le> 57 then Some (n - 48)
         else if 97 \<le> n \<and> n \<le> 102 then Some (n - 87)
         else if 65 \<le> n \<and> n \<le> 70 then Some (n - 55)
         else None)"

definition is_digit :: "nat \<Rightarrow> char \<Rightarrow> bool" where
  "is_digit base c = (case digit_val c of None \<Rightarrow> False | Some v \<Rightarrow> v < base)"

fun digits_val :: "nat \<Rightarrow> int \<Rightarrow> string \<Rightarrow> int" where
  "digits_val base acc [] = acc"
| "digits_val base acc (c # cs) =
     digits_val base
       (acc * int base + (case digit_val c of None \<Rightarrow> 0 | Some v \<Rightarrow> int v)) cs"

definition all_digits :: "nat \<Rightarrow> string \<Rightarrow> bool" where
  "all_digits base s = (s \<noteq> [] \<and> list_all (is_digit base) s)"

text \<open>ExponentPart: empty, or \<open>e\<close>/\<open>E\<close>, an optional sign and at least one digit.\<close>

definition exponent_part :: "string \<Rightarrow> int option" where
  "exponent_part s =
     (case s of
        [] \<Rightarrow> Some 0
      | c # t \<Rightarrow>
          if c = CHR ''e'' \<or> c = CHR ''E'' then
            (case t of
               [] \<Rightarrow> None
             | sg # u \<Rightarrow>
                 if sg = CHR ''-'' then
                   (if all_digits 10 u then Some (- digits_val 10 0 u) else None)
                 else if sg = CHR ''+'' then
                   (if all_digits 10 u then Some (digits_val 10 0 u) else None)
                 else (if all_digits 10 t then Some (digits_val 10 0 t) else None))
          else None)"

definition pow10 :: "int \<Rightarrow> rat" where
  "pow10 i = (if 0 \<le> i then 10 ^ nat i else 1 / 10 ^ nat (- i))"

text \<open>
  StrUnsignedDecimalLiteral without \<open>Infinity\<close>: digits, an optional fraction, an
  optional exponent, with a digit on at least one side of the point. The result is the
  exact mathematical value.
\<close>

definition unsigned_decimal :: "string \<Rightarrow> rat option" where
  "unsigned_decimal s =
     (let ip = takeWhile (is_digit 10) s;
          r1 = dropWhile (is_digit 10) s;
          dot = (r1 \<noteq> [] \<and> hd r1 = CHR ''.'');
          fp = (if dot then takeWhile (is_digit 10) (tl r1) else []);
          r2 = (if dot then dropWhile (is_digit 10) (tl r1) else r1)
      in if ip = [] \<and> fp = [] then None
         else
           (case exponent_part r2 of
              None \<Rightarrow> None
            | Some ex \<Rightarrow>
                Some ((of_int (digits_val 10 0 ip)
                       + of_int (digits_val 10 0 fp) / 10 ^ length fp) * pow10 ex)))"

definition unsigned_literal :: "string \<Rightarrow> number" where
  "unsigned_literal s =
     (if s = ''Infinity'' then PosInf
      else case unsigned_decimal s of None \<Rightarrow> NaN | Some q \<Rightarrow> fl q)"

definition negate :: "number \<Rightarrow> number" where
  "negate x = (case x of NaN \<Rightarrow> NaN | NegInf \<Rightarrow> PosInf | PosInf \<Rightarrow> NegInf | Fin q \<Rightarrow> Fin (- q))"

definition radix_literal :: "string \<Rightarrow> number option" where
  "radix_literal s =
     (case s of
        z # p # t \<Rightarrow>
          if z \<noteq> CHR ''0'' then None
          else if p = CHR ''x'' \<or> p = CHR ''X'' then
            Some (if all_digits 16 t then fl (of_int (digits_val 16 0 t)) else NaN)
          else if p = CHR ''o'' \<or> p = CHR ''O'' then
            Some (if all_digits 8 t then fl (of_int (digits_val 8 0 t)) else NaN)
          else if p = CHR ''b'' \<or> p = CHR ''B'' then
            Some (if all_digits 2 t then fl (of_int (digits_val 2 0 t)) else NaN)
          else None
      | _ \<Rightarrow> None)"

text \<open>
  \<open>Number(s)\<close> for a string (StringToNumber): white space is stripped, the empty string
  is 0, a hexadecimal, octal or binary literal takes no sign, a decimal literal takes
  an optional sign, anything else is NaN.
\<close>

definition Number_str :: "string \<Rightarrow> number" where
  "Number_str s =
     (let t = trim s
      in if t = [] then Fin 0
         else case radix_literal t of
                Some v \<Rightarrow> v
              | None \<Rightarrow>
                  (case t of
                     c # u \<Rightarrow>
                       if c = CHR ''-'' then negate (unsigned_literal u)
                       else if c = CHR ''+'' then unsigned_literal u
                       else unsigned_literal t
                   | [] \<Rightarrow> Fin 0))"

section \<open>Field scorers (\<open>src/lib/risk-scoring.ts\<close>)\<close>

text \<open>
  A field of a patient is \<open>null\<close>, \<open>undefined\<close> (the key is missing) or a value; age and
  temperature hold a number or a string.
\<close>

datatype 'a nullable = Null | Undefined | Value 'a

datatype numstr = Num number | Str string

datatype RiskCategory = Normal | Elevated | Stage1 | Stage2 | Invalid

record field_score =
  score :: int
  isValid :: bool

record bp_score = field_score +
  category :: RiskCategory

definition invalid_bp :: bp_score where
  "invalid_bp = \<lparr>score = 0, isValid = False, category = Invalid\<rparr>"

text \<open>
  The two band scores and the label are local variables of \<open>scoreBloodPressure\<close>; they are
  named here so that properties can speak about them.
\<close>

definition systolicScore :: "number \<Rightarrow> int" where
  "systolicScore systolic =
     (if num_ge systolic (fl 140) then 4
      else if num_ge systolic (fl 130) then 3
      else if num_ge systolic (fl 120) then 2
      else 1)"

definition diastolicScore :: "number \<Rightarrow> number \<Rightarrow> int" where
  "diastolicScore systolic diastolic =
     (if num_ge diastolic (fl 90) then 4
      else if num_ge diastolic (fl 80) then 3
      else if num_ge systolic (fl 120) \<and> num_less systolic (fl 130) then 2
      else if num_less systolic (fl 120) then 1
      else 0)"

definition category_of :: "int \<Rightarrow> RiskCategory" where
  "category_of finalScore =
     (if finalScore = 4 then Stage2
      else if finalScore = 3 then Stage1
      else if finalScore = 2 then Elevated
      else Normal)"

definition scoreBloodPressure :: "string nullable \<Rightarrow> bp_score" where
  "scoreBloodPressure bp =
     (case bp of
        Null \<Rightarrow> invalid_bp
      | Undefined \<Rightarrow> invalid_bp
      | Value s \<Rightarrow>
          if s = [] \<or> trim s = [] then invalid_bp
          else
            let parts = split CHR ''/'' s
            in if length parts \<noteq> 2 then invalid_bp
               else
                 let systolicStr = trim (parts ! 0);
                     diastolicStr = trim (parts ! 1)
                 in if systolicStr = [] \<or> diastolicStr = [] then invalid_bp
                    else
                      let systolic = Number_str systolicStr;
                          diastolic = Number_str diastolicStr
                      in if isNaN systolic \<or> isNaN diastolic then invalid_bp
                         else
                           let finalScore =
                                 max (systolicScore systolic)
                                     (diastolicScore systolic diastolic)
                           in \<lparr>score = finalScore, isValid = True,
                               category = category_of finalScore\<rparr>)"

text \<open>\<open>typeof v === "string" ? Number(v) : v\<close>\<close>

definition to_number :: "numstr \<Rightarrow> number" where
  "to_number v = (case v of Str s \<Rightarrow> Number_str s | Num n \<Rightarrow> n)"

definition scoreTemperature :: "numstr nullable \<Rightarrow> field_score" where
  "scoreTemperature temp =
     (case temp of
        Null \<Rightarrow> \<lparr>score = 0, isValid = False\<rparr>
      | Undefined \<Rightarrow> \<lparr>score = 0, isValid = False\<rparr>
      | Value v \<Rightarrow>
          let temperature = to_number v
          in if isNaN temperature then \<lparr>score = 0, isValid = False\<rparr>
             else if num_ge temperature (fl 101) then \<lparr>score = 2, isValid = True\<rparr>
             else if num_ge temperature (fl (996 / 10)) then \<lparr>score = 1, isValid = True\<rparr>
             else \<lparr>score = 0, isValid = True\<rparr>)"

definition scoreAge :: "numstr nullable \<Rightarrow> field_score" where
  "scoreAge age =
     (case age of
        Null \<Rightarrow> \<lparr>score = 0, isValid = False\<rparr>
      | Undefined \<Rightarrow> \<lparr>score = 0, isValid = False\<rparr>
      | Value v \<Rightarrow>
          let ageNum = to_number v
          in if isNaN ageNum then \<lparr>score = 0, isValid = False\<rparr>
             else if num_gt ageNum (fl 65) then \<lparr>score = 2, isValid = True\<rparr>
             else if num_ge ageNum (fl 40) then \<lparr>score = 1, isValid = True\<rparr>
             else \<lparr>score = 1, isValid = True\<rparr>)"

section \<open>Risk assessor\<close>

record RiskScore =
  bloodPressure :: int
  temperature :: int
  age :: int
  total :: int

record Patient =
  patient_id :: string
  name :: string
  age :: "numstr nullable"
  gender :: string
  blood_pressure :: "string nullable"
  temperature :: "numstr nullable"
  visit_date :: string
  diagnosis :: string
  medications :: string

record PatientWithRisk = Patient +
  riskScore :: RiskScore
  isHighRisk :: bool
  hasFever :: bool
  hasDataQualityIssues :: bool

text \<open>\<open>Number(v)\<close> of a field that is known not to be \<open>null\<close> or \<open>undefined\<close>.\<close>

definition Number_field :: "numstr nullable \<Rightarrow> number" where
  "Number_field v = (case v of Null \<Rightarrow> Fin 0 | Undefined \<Rightarrow> NaN | Value w \<Rightarrow> to_number w)"

definition assessPatientRisk :: "Patient \<Rightarrow> PatientWithRisk" where
  "assessPatientRisk patient =
     (let bpResult = scoreBloodPressure (blood_pressure patient);
          tempResult = scoreTemperature (Patient.temperature patient);
          ageResult = scoreAge (Patient.age patient);
          riskScore =
            \<lparr>bloodPressure = score bpResult,
             temperature = score tempResult,
             age = score ageResult,
             total = score bpResult + score tempResult + score ageResult\<rparr>;
          hasDataQualityIssues =
            (\<not> isValid bpResult \<or> \<not> isValid tempResult \<or> \<not> isValid ageResult);
          isHighRisk = (4 \<le> total riskScore);
          hasFever =
            (isValid tempResult \<and> Patient.temperature patient \<noteq> Null
             \<and> Patient.temperature patient \<noteq> Undefined
             \<and> num_ge (Number_field (Patient.temperature patient)) (fl (996 / 10)))
      in Patient.extend patient
           \<lparr>riskScore = riskScore, isHighRisk = isHighRisk, hasFever = hasFever,
            hasDataQualityIssues = hasDataQualityIssues\<rparr>)"

section \<open>The scoring rules as the specification words them\<close>

text \<open>
  The blood-pressure bands of the specification, each given by its own interval:
  systolic below 120, in [120, 130), in [130, 140), from 140; diastolic from 90,
  in [80, 90), and below 80 by the systolic value. They are compared with
  \<open>scoreBloodPressure\<close> below.
\<close>

definition spec_systolicBand :: "number \<Rightarrow> int" where
  "spec_systolicBand s =
     (if num_less s (Fin 120) then 1
      else if num_ge s (Fin 120) \<and> num_less s (Fin 130) then 2
      else if num_ge s (Fin 130) \<and> num_less s (Fin 140) then 3
      else if num_ge s (Fin 140) then 4
      else 0)"

definition spec_diastolicBand :: "number \<Rightarrow> number \<Rightarrow> int" where
  "spec_diastolicBand s d =
     (if num_ge d (Fin 90) then 4
      else if num_ge d (Fin 80) \<and> num_less d (Fin 90) then 3
      else if num_less d (Fin 80) \<and> num_ge s (Fin 120) \<and> num_less s (Fin 130) then 2
      else if num_less d (Fin 80) \<and> num_less s (Fin 120) then 1
      else 0)"

definition spec_category :: "int \<Rightarrow> RiskCategory" where
  "spec_category n =
     (if n = 4 then Stage2 else if n = 3 then Stage1 else if n = 2 then Elevated else Normal)"

section \<open>Backoff policy (\<open>src/lib/utils.ts\<close>)\<close>

text \<open>
  Delays are whole milliseconds and attempts are loop counters, so both are natural
  numbers here.
\<close>

definition getExponentialBackoff :: "nat \<Rightarrow> nat \<Rightarrow> nat" where
  "getExponentialBackoff attempt baseDelay = baseDelay * 2 ^ attempt"

definition isRetryableError :: "nat \<Rightarrow> bool" where
  "isRetryableError status = (status = 429 \<or> status = 500 \<or> status = 503)"

section \<open>API client (\<open>src/lib/api-client.ts\<close>)\<close>

definition MAX_RETRIES :: nat where
  "MAX_RETRIES = 5"

definition BASE_DELAY :: nat where
  "BASE_DELAY = 1000"

definition RATE_LIMIT_DELAY :: nat where
  "RATE_LIMIT_DELAY = 500"

subsection \<open>Responses, requests and the trace of effects\<close>

record Pagination =
  page :: int
  limit :: int
  total :: int
  totalPages :: int
  hasNext :: bool
  hasPrevious :: bool

record Metadata =
  timestamp :: string
  version :: string
  requestId :: string

text \<open>
  The numbers of a pagination are taken to be integers. What \<open>fetchPatientsPage\<close> returns
  is the next record. The pagination and the metadata of a well-formed
  page are passed on as they came, so they can be missing.
\<close>

record PatientsResponse =
  data :: "Patient list"
  pagination :: "Pagination option"
  metadata :: "Metadata option"

text \<open>
  The value that \<open>response.json()\<close> yields for a page, as far as the client inspects it:
  \<open>NonObject\<close> is a value that is falsy or whose \<open>typeof\<close> is not \<open>object\<close>; in an object,
  the first field is \<open>None\<close> when \<open>data\<close> is not an array, the second and third are \<open>None\<close>
  when \<open>pagination\<close> or \<open>metadata\<close> is missing or falsy.
\<close>

datatype page_json =
  NonObject
| Object "Patient list option" "Pagination option" "Metadata option"

text \<open>
  A response: the status line, the body as \<open>text()\<close> returns it, and what \<open>json()\<close> does with the body
  (\<open>Inl\<close> is the message of the error it throws when the body is not JSON).
\<close>

record 'j response =
  status :: nat
  statusText :: string
  bodyText :: string
  json :: "string + 'j"

definition ok :: "'j response \<Rightarrow> bool" where
  "ok r = (200 \<le> status r \<and> status r \<le> 299)"

text \<open>\<open>fetch\<close> resolves to a response or rejects with an error.\<close>

datatype 'j outcome = Rejected string | Response "'j response"

record AssessmentResults =
  high_risk_patients :: "string list"
  fever_patients :: "string list"
  data_quality_issues :: "string list"

text \<open>
  A request as \<open>fetch\<close> receives it; \<open>http_method\<close> is the option \<open>method\<close>, and the body is
  kept as the value that \<open>JSON.stringify\<close> is applied to.
\<close>

record request =
  http_method :: string
  url :: string
  headers :: "(string \<times> string) list"
  body :: "AssessmentResults option"

datatype event = Fetch request | Sleep nat

text \<open>
  The outside world: the outcome of the \<open>n\<close>-th request the client issues (counted from 0
  over the whole run) and the time stamp \<open>new Date().toISOString()\<close> returns. The effects
  of a run are recorded in a trace, in the order they happen.
\<close>

record 'j env =
  respond :: "nat \<Rightarrow> request \<Rightarrow> 'j outcome"
  now :: string

definition fetches :: "event list \<Rightarrow> request list" where
  "fetches tr = concat (map (\<lambda>e. case e of Fetch r \<Rightarrow> [r] | Sleep _ \<Rightarrow> []) tr)"

definition sleeps :: "event list \<Rightarrow> nat list" where
  "sleeps tr = concat (map (\<lambda>e. case e of Fetch _ \<Rightarrow> [] | Sleep d \<Rightarrow> [d]) tr)"

definition fetch :: "'j env \<Rightarrow> request \<Rightarrow> event list \<Rightarrow> 'j outcome \<times> event list" where
  "fetch env req tr = (respond env (length (fetches tr)) req, tr @ [Fetch req])"

definition sleep :: "nat \<Rightarrow> event list \<Rightarrow> event list" where
  "sleep ms tr = tr @ [Sleep ms]"

datatype error = Error string

text \<open>A non-negative integer in a template literal.\<close>

fun decimal :: "nat \<Rightarrow> string" where
  "decimal n =
     (if n < 10 then [char_of (n + 48)]
      else decimal (n div 10) @ [char_of (n mod 10 + 48)])"

text \<open>
  One pass through a \<open>try\<close> block ends in \<open>continue\<close> after a sleep, in \<open>return\<close>, or in
  the \<open>catch\<close> block with the error thrown.
\<close>

datatype 'a attempt = Continue nat | Returned 'a | Thrown error

subsection \<open>\<open>fetchPatientsPage\<close>\<close>

definition page_request :: "string \<Rightarrow> string \<Rightarrow> nat \<Rightarrow> nat \<Rightarrow> request" where
  "page_request apiKey baseUrl pageNo pageLimit =
     \<lparr>http_method = ''GET'',
      url = baseUrl @ ''/patients?page='' @ decimal pageNo @ ''&limit='' @ decimal pageLimit,
      headers = [(''x-api-key'', apiKey)],
      body = None\<rparr>"

text \<open>The \<open>try\<close> block of \<open>fetchPatientsPage\<close> from the point where \<open>fetch\<close> has settled.\<close>

definition fetchPatientsPage_try ::
  "string \<Rightarrow> nat \<Rightarrow> nat \<Rightarrow> nat \<Rightarrow> page_json outcome \<Rightarrow> PatientsResponse attempt" where
  "fetchPatientsPage_try nowISO pageNo pageLimit attempt out =
     (case out of
        Rejected m \<Rightarrow> Thrown (Error m)
      | Response response \<Rightarrow>
          if isRetryableError (status response) then
            let baseDelayForRetry = (if status response = 429 then BASE_DELAY * 2 else BASE_DELAY);
                delay = getExponentialBackoff attempt baseDelayForRetry
            in Continue delay
          else if \<not> ok response then
            Thrown (Error (''HTTP '' @ decimal (status response) @ '': '' @ statusText response))
          else
            (case json response of
               Inl m \<Rightarrow> Thrown (Error m)
             | Inr NonObject \<Rightarrow>
                 Thrown (Error ''Invalid response format: response is not an object'')
             | Inr (Object None pg md) \<Rightarrow>
                 Returned
                   \<lparr>data = [],
                    pagination =
                      (case pg of
                         Some p \<Rightarrow> Some p
                       | None \<Rightarrow>
                           Some \<lparr>page = int pageNo, limit = int pageLimit, total = 0, totalPages = 1,
                                 hasNext = False, hasPrevious = False\<rparr>),
                    metadata =
                      (case md of
                         Some m \<Rightarrow> Some m
                       | None \<Rightarrow>
                           Some \<lparr>timestamp = nowISO, version = ''v1.0'',
                                 requestId = ''unknown''\<rparr>)\<rparr>
             | Inr (Object (Some ps) pg md) \<Rightarrow>
                 Returned \<lparr>data = ps, pagination = pg, metadata = md\<rparr>))"

text \<open>
  The \<open>for\<close> loop of \<open>fetchPatientsPage\<close>, entered with the attempt counter, \<open>lastError\<close> and
  the trace so far. It returns the page or the error thrown, and the trace.
\<close>

function fetchPatientsPage_loop ::
  "page_json env \<Rightarrow> string \<Rightarrow> string \<Rightarrow> nat \<Rightarrow> nat \<Rightarrow> nat \<Rightarrow> error option \<Rightarrow> event list
   \<Rightarrow> (error + PatientsResponse) \<times> event list" where
  "fetchPatientsPage_loop env apiKey baseUrl pageNo pageLimit attempt lastError tr =
     (if attempt < MAX_RETRIES then
        (case fetch env (page_request apiKey baseUrl pageNo pageLimit) tr of
           (out, tr1) \<Rightarrow>
             (case fetchPatientsPage_try (now env) pageNo pageLimit attempt out of
                Continue delay \<Rightarrow>
                  fetchPatientsPage_loop env apiKey baseUrl pageNo pageLimit (attempt + 1) lastError
                    (sleep delay tr1)
              | Returned r \<Rightarrow> (Inr r, tr1)
              | Thrown e \<Rightarrow>
                  if attempt = MAX_RETRIES - 1 then (Inl e, tr1)
                  else
                    fetchPatientsPage_loop env apiKey baseUrl pageNo pageLimit (attempt + 1) (Some e)
                      (sleep (getExponentialBackoff attempt BASE_DELAY) tr1)))
      else
        (Inl (case lastError of
                Some e \<Rightarrow> e
              | None \<Rightarrow>
                  Error (''Failed to fetch page '' @ decimal pageNo @ '' after ''
                         @ decimal MAX_RETRIES @ '' attempts'')),
         tr))"
  by pat_completeness auto
termination
  by (relation "measure (\<lambda>(env, apiKey, baseUrl, pageNo, pageLimit, attempt, lastError, tr).
                   MAX_RETRIES - attempt)") auto

definition fetchPatientsPage ::
  "page_json env \<Rightarrow> string \<Rightarrow> string \<Rightarrow> nat \<Rightarrow> nat \<Rightarrow> event list
   \<Rightarrow> (error + PatientsResponse) \<times> event list" where
  "fetchPatientsPage env apiKey baseUrl pageNo pageLimit tr =
     fetchPatientsPage_loop env apiKey baseUrl pageNo pageLimit 0 None tr"

subsection \<open>\<open>fetchAllPatients\<close>\<close>

text \<open>
  The progress callback is optional and the route handler passes none, so no call of it
  is recorded. The loop over the remaining pages carries \<open>currentPage\<close>, \<open>allPatients\<close>
  and the trace (the local variable \<open>totalPages\<close> is \<open>pageCount\<close> here, the name being taken
  by the field of the pagination); an error of a page fetch leaves the function through its \<open>catch\<close> block,
  which rethrows it.
\<close>

function fetchAllPatients_loop ::
  "page_json env \<Rightarrow> string \<Rightarrow> string \<Rightarrow> int \<Rightarrow> nat \<Rightarrow> Patient list \<Rightarrow> event list
   \<Rightarrow> (error + Patient list) \<times> event list" where
  "fetchAllPatients_loop env apiKey baseUrl pageCount currentPage allPatients tr =
     (if int currentPage \<le> pageCount then
        (case fetchPatientsPage env apiKey baseUrl currentPage 5 (sleep RATE_LIMIT_DELAY tr) of
           (Inl e, tr1) \<Rightarrow> (Inl e, tr1)
         | (Inr pageData, tr1) \<Rightarrow>
             fetchAllPatients_loop env apiKey baseUrl pageCount (currentPage + 1)
               (if length (data pageData) > 0 then allPatients @ data pageData else allPatients)
               tr1)
      else (Inr allPatients, tr))"
  by pat_completeness auto
termination
  by (relation "measure (\<lambda>(env, apiKey, baseUrl, pageCount, currentPage, allPatients, tr).
                   nat (pageCount + 1 - int currentPage))") auto

text \<open>\<open>firstPageData.pagination?.totalPages || 1\<close>: a missing pagination and a page count of 0
  give 1.\<close>

definition totalPages_or_1 :: "Pagination option \<Rightarrow> int" where
  "totalPages_or_1 pg =
     (case pg of None \<Rightarrow> 1 | Some p \<Rightarrow> if totalPages p = 0 then 1 else totalPages p)"

definition fetchAllPatients ::
  "page_json env \<Rightarrow> string \<Rightarrow> string \<Rightarrow> event list
   \<Rightarrow> (error + Patient list) \<times> event list" where
  "fetchAllPatients env apiKey baseUrl tr =
     (case fetchPatientsPage env apiKey baseUrl 1 5 tr of
        (Inl e, tr1) \<Rightarrow> (Inl e, tr1)
      | (Inr firstPageData, tr1) \<Rightarrow>
          let allPatients =
                (if length (data firstPageData) > 0 then [] @ data firstPageData else []);
              pageCount = totalPages_or_1 (pagination firstPageData)
          in fetchAllPatients_loop env apiKey baseUrl pageCount 2 allPatients tr1)"

subsection \<open>\<open>submitAssessment\<close>\<close>

definition submit_request :: "string \<Rightarrow> string \<Rightarrow> AssessmentResults \<Rightarrow> request" where
  "submit_request apiKey baseUrl results =
     \<lparr>http_method = ''POST'',
      url = baseUrl @ ''/submit-assessment'',
      headers = [(''Content-Type'', ''application/json''), (''x-api-key'', apiKey)],
      body = Some results\<rparr>"

definition submitAssessment_try :: "nat \<Rightarrow> 'r outcome \<Rightarrow> 'r attempt" where
  "submitAssessment_try attempt out =
     (case out of
        Rejected m \<Rightarrow> Thrown (Error m)
      | Response response \<Rightarrow>
          if isRetryableError (status response) then
            let baseDelayForRetry = (if status response = 429 then BASE_DELAY * 2 else BASE_DELAY);
                delay = getExponentialBackoff attempt baseDelayForRetry
            in Continue delay
          else if \<not> ok response then
            Thrown (Error (''HTTP '' @ decimal (status response) @ '': '' @ bodyText response))
          else
            (case json response of
               Inl m \<Rightarrow> Thrown (Error m)
             | Inr d \<Rightarrow> Returned d))"

function submitAssessment_loop ::
  "'r env \<Rightarrow> string \<Rightarrow> string \<Rightarrow> AssessmentResults \<Rightarrow> nat \<Rightarrow> error option \<Rightarrow> event list
   \<Rightarrow> (error + 'r) \<times> event list" where
  "submitAssessment_loop env apiKey baseUrl results attempt lastError tr =
     (if attempt < MAX_RETRIES then
        (case fetch env (submit_request apiKey baseUrl results) tr of
           (out, tr1) \<Rightarrow>
             (case submitAssessment_try attempt out of
                Continue delay \<Rightarrow>
                  submitAssessment_loop env apiKey baseUrl results (attempt + 1) lastError
                    (sleep delay tr1)
              | Returned r \<Rightarrow> (Inr r, tr1)
              | Thrown e \<Rightarrow>
                  if attempt = MAX_RETRIES - 1 then (Inl e, tr1)
                  else
                    submitAssessment_loop env apiKey baseUrl results (attempt + 1) (Some e)
                      (sleep (getExponentialBackoff attempt BASE_DELAY) tr1)))
      else
        (Inl (case lastError of
                Some e \<Rightarrow> e
              | None \<Rightarrow>
                  Error (''Failed to submit assessment after '' @ decimal MAX_RETRIES
                         @ '' attempts'')),
         tr))"
  by pat_completeness auto
termination
  by (relation "measure (\<lambda>(env, apiKey, baseUrl, results, attempt, lastError, tr).
                   MAX_RETRIES - attempt)") auto

definition submitAssessment ::
  "'r env \<Rightarrow> string \<Rightarrow> string \<Rightarrow> AssessmentResults \<Rightarrow> event list
   \<Rightarrow> (error + 'r) \<times> event list" where
  "submitAssessment env apiKey baseUrl results tr =
     submitAssessment_loop env apiKey baseUrl results 0 None tr"

section \<open>Example servers\<close>

text \<open>
  A server that answers the first requests from a script and every later request with a
  fixed outcome, a response that carries only a status line, and a 200 response with a
  JSON body. They provide the concrete runs of the examples below.
\<close>

definition scripted :: "'j outcome list \<Rightarrow> 'j outcome \<Rightarrow> 'j env" where
  "scripted outs rest =
     \<lparr>respond = (\<lambda>i rq. if i < length outs then outs ! i else rest),
      now = ''2024-01-01T00:00:00.000Z''\<rparr>"

definition status_only :: "nat \<Rightarrow> string \<Rightarrow> 'j outcome" where
  "status_only s t =
     Response \<lparr>status = s, statusText = t, bodyText = '''',
               json = Inl ''Unexpected end of JSON input''\<rparr>"

definition ok_json :: "'j \<Rightarrow> 'j outcome" where
  "ok_json v = Response \<lparr>status = 200, statusText = ''OK'', bodyText = ''{}'', json = Inr v\<rparr>"

definition example_patient :: "string \<Rightarrow> Patient" where
  "example_patient ident =
     \<lparr>patient_id = ident, name = ''N'', age = Value (Num (Fin 50)), gender = ''F'',
      blood_pressure = Value ''120/80'', temperature = Value (Num (Fin 98)),
      visit_date = ''2024-01-01'', diagnosis = ''d'', medications = ''m''\<rparr>"

definition example_pagination :: "int \<Rightarrow> int \<Rightarrow> Pagination" where
  "example_pagination n m =
     \<lparr>page = n, limit = 5, total = 5 * m, totalPages = m, hasNext = (n < m),
      hasPrevious = (1 < n)\<rparr>"

section \<open>Notions used in the statements\<close>

text \<open>The records a page body contributes: those of its \<open>data\<close> array, none without one.\<close>

definition records_of :: "Patient list option \<Rightarrow> Patient list" where
  "records_of d = (case d of None \<Rightarrow> [] | Some ps \<Rightarrow> ps)"

section \<open>Properties of the scoring engine\<close>

subsection \<open>Numeric literals of the source\<close>

lemma fl_140: "fl 140 = Fin 140" by code_simp
lemma fl_130: "fl 130 = Fin 130" by code_simp
lemma fl_120: "fl 120 = Fin 120" by code_simp
lemma fl_90: "fl 90 = Fin 90" by code_simp
lemma fl_80: "fl 80 = Fin 80" by code_simp
lemma fl_101: "fl 101 = Fin 101" by code_simp
lemma fl_65: "fl 65 = Fin 65" by code_simp
lemma fl_40: "fl 40 = Fin 40" by code_simp
lemma fl_99_6: "fl (996 / 10) = Fin (3504363460047667 / 35184372088832)" by code_simp

lemma fl_99_6_reduced: "fl (498 / 5) = Fin (3504363460047667 / 35184372088832)"
  using fl_99_6 by simp

lemmas fl_literals = fl_140 fl_130 fl_120 fl_90 fl_80 fl_101 fl_65 fl_40 fl_99_6 fl_99_6_reduced

subsection \<open>\<open>trim\<close> and \<open>split\<close>\<close>
lemma split_no_sep: "c \<notin> set s \<Longrightarrow> split c s = [s]"
  by (induction s) auto

lemma dropWhile_self: "t \<noteq> [] \<Longrightarrow> \<not> P (hd t) \<Longrightarrow> dropWhile P t = t"
  by (cases t) auto

lemma trim_empty_iff: "trim s = [] \<longleftrightarrow> (\<forall>c \<in> set s. is_ws c)"
proof
  assume "trim s = []"
  then have a: "\<forall>x \<in> set (dropWhile is_ws s). is_ws x"
    by (simp add: trim_def dropWhile_eq_Nil_conv)
  have "dropWhile is_ws s = []"
  proof (rule ccontr)
    assume n: "dropWhile is_ws s \<noteq> []"
    then have "\<not> is_ws (hd (dropWhile is_ws s))" by (rule hd_dropWhile)
    with a n show False by (meson hd_in_set)
  qed
  then show "\<forall>c \<in> set s. is_ws c" by (simp add: dropWhile_eq_Nil_conv)
next
  assume "\<forall>c \<in> set s. is_ws c"
  then show "trim s = []" by (auto simp: trim_def dest: set_dropWhileD)
qed

lemma slash_not_ws: "\<not> is_ws CHR ''/''"
  by (simp add: is_ws_def)

lemma blank_split: "trim s = [] \<Longrightarrow> split CHR ''/'' s = [s]"
  using slash_not_ws by (intro split_no_sep) (auto simp: trim_empty_iff)

lemma trim_fixed:
  assumes "t \<noteq> []" "\<not> is_ws (hd t)" "\<not> is_ws (last t)"
  shows "trim t = t"
proof -
  have 1: "dropWhile is_ws t = t" using assms by (simp add: dropWhile_self)
  have "hd (rev t) = last t" using assms by (simp add: hd_rev)
  then have "dropWhile is_ws (rev t) = rev t" using assms by (simp add: dropWhile_self)
  with 1 show ?thesis by (simp add: trim_def)
qed

lemma trim_trim: "trim (trim s) = trim s"
proof (cases "trim s = []")
  case True
  show ?thesis by (simp only: True) (simp add: trim_def)
next
  case False
  let ?u = "dropWhile is_ws s"
  let ?v = "dropWhile is_ws (rev ?u)"
  from False have v: "?v \<noteq> []" by (simp add: trim_def)
  then have hv: "\<not> is_ws (hd ?v)" by (rule hd_dropWhile)
  have u: "?u \<noteq> []"
  proof
    assume e: "?u = []"
    have "?v = []" by (simp only: e) simp
    with v show False by simp
  qed
  then have hu: "\<not> is_ws (hd ?u)" by (rule hd_dropWhile)
  have l: "last (trim s) = hd ?v" using v by (simp add: trim_def last_rev)
  have "rev (rev ?u) = rev (takeWhile is_ws (rev ?u) @ ?v)"
    by (simp only: takeWhile_dropWhile_id)
  then have "?u = rev ?v @ rev (takeWhile is_ws (rev ?u))"
    by (simp only: rev_rev_ident rev_append)
  then have "hd ?u = hd (rev ?v)" using v by (metis hd_append2 rev_is_Nil_conv)
  then have h: "hd (trim s) = hd ?u" by (simp add: trim_def)
  show ?thesis using False hu hv l h by (intro trim_fixed) auto
qed

lemma Number_str_trim: "Number_str (trim s) = Number_str s"
  by (simp add: Number_str_def trim_trim)

subsection \<open>Blood pressure\<close>

lemma systolicScore_spec: "\<not> isNaN x \<Longrightarrow> systolicScore x = spec_systolicBand x"
  by (cases x) (auto simp: systolicScore_def spec_systolicBand_def fl_literals num_ge_def isNaN_def)

lemma diastolicScore_spec:
  "\<not> isNaN x \<Longrightarrow> \<not> isNaN y \<Longrightarrow> diastolicScore x y = spec_diastolicBand x y"
  by (cases x; cases y)
     (auto simp: diastolicScore_def spec_diastolicBand_def fl_literals num_ge_def isNaN_def)

lemma category_of_spec: "category_of n = spec_category n"
  by (simp add: category_of_def spec_category_def)

lemma bp_parsed:
  assumes sp: "split CHR ''/'' s = [a, b]"
    and a: "trim a \<noteq> []" and b: "trim b \<noteq> []"
    and na: "\<not> isNaN (Number_str a)" and nb: "\<not> isNaN (Number_str b)"
  shows "scoreBloodPressure (Value s) =
           \<lparr>score = max (systolicScore (Number_str a))
                       (diastolicScore (Number_str a) (Number_str b)),
            isValid = True,
            category = category_of (max (systolicScore (Number_str a))
                       (diastolicScore (Number_str a) (Number_str b)))\<rparr>"
proof -
  have s: "s \<noteq> []" using sp by auto
  have t: "trim s \<noteq> []" using sp blank_split[of s] by auto
  show ?thesis
    using s t a b na nb
    by (simp add: scoreBloodPressure_def sp Number_str_trim Let_def)
qed

lemma length2E: "length xs = 2 \<Longrightarrow> \<exists>a b. xs = [a, b]"
  by (cases xs; cases "tl xs") auto

lemma bp_unparsed:
  assumes "trim s = [] \<or> length (split CHR ''/'' s) \<noteq> 2
           \<or> (\<exists>p \<in> set (split CHR ''/'' s). trim p = [] \<or> isNaN (Number_str p))"
  shows "scoreBloodPressure (Value s) = invalid_bp"
proof (cases "trim s = [] \<or> length (split CHR ''/'' s) \<noteq> 2")
  case True
  then show ?thesis by (auto simp: scoreBloodPressure_def Let_def)
next
  case False
  then obtain a b where sp: "split CHR ''/'' s = [a, b]"
    using length2E by blast
  with assms False have "trim a = [] \<or> trim b = [] \<or> isNaN (Number_str a) \<or> isNaN (Number_str b)"
    by auto
  then show ?thesis
    by (auto simp: scoreBloodPressure_def Let_def sp Number_str_trim)
qed

lemma bp_absent:
  "scoreBloodPressure Null = invalid_bp" "scoreBloodPressure Undefined = invalid_bp"
  by (simp_all add: scoreBloodPressure_def)

lemma bp_cases:
  "scoreBloodPressure bp = invalid_bp
   \<or> (\<exists>x y. scoreBloodPressure bp =
         \<lparr>score = max (systolicScore x) (diastolicScore x y), isValid = True,
          category = category_of (max (systolicScore x) (diastolicScore x y))\<rparr>)"
proof (cases bp)
  case (Value s)
  show ?thesis
  proof (cases "trim s = [] \<or> length (split CHR ''/'' s) \<noteq> 2
           \<or> (\<exists>p \<in> set (split CHR ''/'' s). trim p = [] \<or> isNaN (Number_str p))")
    case True
    then show ?thesis using bp_unparsed[of s] Value by simp
  next
    case False
    then obtain a b where sp: "split CHR ''/'' s = [a, b]" using length2E by blast
    with False have "trim a \<noteq> []" "trim b \<noteq> []"
      "\<not> isNaN (Number_str a)" "\<not> isNaN (Number_str b)" by auto
    from bp_parsed[OF sp this] show ?thesis using Value by blast
  qed
qed (simp_all add: bp_absent)

lemma systolicScore_range: "1 \<le> systolicScore x \<and> systolicScore x \<le> 4"
  by (simp add: systolicScore_def)

lemma diastolicScore_range: "0 \<le> diastolicScore x y \<and> diastolicScore x y \<le> 4"
  by (simp add: diastolicScore_def)

subsection \<open>Temperature and age\<close>

lemma Number_str_blank: "\<forall>c \<in> set s. is_ws c \<Longrightarrow> Number_str s = Fin 0"
  using trim_empty_iff[of s] by (simp add: Number_str_def)

lemma scoreTemperature_finite:
  "to_number v = Fin t \<Longrightarrow>
   scoreTemperature (Value v) =
     \<lparr>score = (if 101 \<le> t then 2 else if 3504363460047667 / 35184372088832 \<le> t then 1 else 0),
      isValid = True\<rparr>"
  by (simp add: scoreTemperature_def Let_def isNaN_def num_ge_def fl_literals)

lemma scoreTemperature_valid:
  "isValid (scoreTemperature v) = (\<exists>w. v = Value w \<and> \<not> isNaN (to_number w))"
  by (cases v) (auto simp: scoreTemperature_def Let_def)

lemma scoreAge_valid:
  "isValid (scoreAge v) = (\<exists>w. v = Value w \<and> \<not> isNaN (to_number w))"
  by (cases v) (auto simp: scoreAge_def Let_def)

lemma scoreTemperature_range: "0 \<le> score (scoreTemperature v) \<and> score (scoreTemperature v) \<le> 2"
  by (cases v) (auto simp: scoreTemperature_def Let_def)

lemma scoreAge_range: "0 \<le> score (scoreAge v) \<and> score (scoreAge v) \<le> 2"
  by (cases v) (auto simp: scoreAge_def Let_def)

lemma scoreBloodPressure_range:
  "0 \<le> score (scoreBloodPressure bp) \<and> score (scoreBloodPressure bp) \<le> 4"
  using bp_cases[of bp]
proof
  assume "scoreBloodPressure bp = invalid_bp"
  then show ?thesis by (simp add: invalid_bp_def)
next
  assume "\<exists>x y. scoreBloodPressure bp =
         \<lparr>score = max (systolicScore x) (diastolicScore x y), isValid = True,
          category = category_of (max (systolicScore x) (diastolicScore x y))\<rparr>"
  then obtain x y where "scoreBloodPressure bp =
         \<lparr>score = max (systolicScore x) (diastolicScore x y), isValid = True,
          category = category_of (max (systolicScore x) (diastolicScore x y))\<rparr>" by blast
  moreover have "0 \<le> max (systolicScore x) (diastolicScore x y)
           \<and> max (systolicScore x) (diastolicScore x y) \<le> 4"
    using systolicScore_range[of x] diastolicScore_range[of x y] by linarith
  ultimately show ?thesis by simp
qed

section \<open>Claims about the scoring engine\<close>

text \<open>
  C1: an absent, blank or malformed reading scores 0 and is invalid;
  a reading that parses as two numbers is valid, its score is the larger of
  the systolic and the diastolic band and its category is the label of that score.
\<close>

theorem scoreBloodPressure_bands:
  "scoreBloodPressure Null = \<lparr>score = 0, isValid = False, category = Invalid\<rparr>
   \<and> scoreBloodPressure Undefined = \<lparr>score = 0, isValid = False, category = Invalid\<rparr>
   \<and> (trim s = [] \<or> length (split CHR ''/'' s) \<noteq> 2
        \<or> (\<exists>p \<in> set (split CHR ''/'' s). trim p = [] \<or> isNaN (Number_str p))
       \<longrightarrow> scoreBloodPressure (Value s) = \<lparr>score = 0, isValid = False, category = Invalid\<rparr>)
   \<and> (split CHR ''/'' t = [a, b] \<and> trim a \<noteq> [] \<and> trim b \<noteq> []
        \<and> \<not> isNaN (Number_str a) \<and> \<not> isNaN (Number_str b)
       \<longrightarrow> scoreBloodPressure (Value t) =
             \<lparr>score = max (spec_systolicBand (Number_str a))
                         (spec_diastolicBand (Number_str a) (Number_str b)),
              isValid = True,
              category = spec_category
                           (max (spec_systolicBand (Number_str a))
                                (spec_diastolicBand (Number_str a) (Number_str b)))\<rparr>)
   \<and> scoreBloodPressure (Value ''120/75'') = \<lparr>score = 2, isValid = True, category = Elevated\<rparr>
   \<and> scoreBloodPressure (Value ''135/95'') = \<lparr>score = 4, isValid = True, category = Stage2\<rparr>
   \<and> scoreBloodPressure (Value ''150/'') = \<lparr>score = 0, isValid = False, category = Invalid\<rparr>
   \<and> scoreBloodPressure (Value ''/90'') = \<lparr>score = 0, isValid = False, category = Invalid\<rparr>
   \<and> scoreBloodPressure (Value '''') = \<lparr>score = 0, isValid = False, category = Invalid\<rparr>
   \<and> scoreBloodPressure (Value ''abc/80'') = \<lparr>score = 0, isValid = False, category = Invalid\<rparr>"
proof -
  have e1: "scoreBloodPressure (Value ''120/75'') = \<lparr>score = 2, isValid = True, category = Elevated\<rparr>"
    by code_simp
  have e2: "scoreBloodPressure (Value ''135/95'') = \<lparr>score = 4, isValid = True, category = Stage2\<rparr>"
    by code_simp
  have e3: "scoreBloodPressure (Value ''150/'') = \<lparr>score = 0, isValid = False, category = Invalid\<rparr>"
    by code_simp
  have e4: "scoreBloodPressure (Value ''/90'') = \<lparr>score = 0, isValid = False, category = Invalid\<rparr>"
    by code_simp
  have e5: "scoreBloodPressure (Value '''') = \<lparr>score = 0, isValid = False, category = Invalid\<rparr>"
    by code_simp
  have e6: "scoreBloodPressure (Value ''abc/80'') = \<lparr>score = 0, isValid = False, category = Invalid\<rparr>"
    by code_simp
  have v: "scoreBloodPressure (Value t) =
             \<lparr>score = max (spec_systolicBand (Number_str a))
                         (spec_diastolicBand (Number_str a) (Number_str b)),
              isValid = True,
              category = spec_category
                           (max (spec_systolicBand (Number_str a))
                                (spec_diastolicBand (Number_str a) (Number_str b)))\<rparr>"
    if "split CHR ''/'' t = [a, b]" "trim a \<noteq> []" "trim b \<noteq> []"
       "\<not> isNaN (Number_str a)" "\<not> isNaN (Number_str b)"
    using bp_parsed[OF that] that(4,5)
    by (simp add: systolicScore_spec diastolicScore_spec category_of_spec)
  have u: "scoreBloodPressure (Value s) = \<lparr>score = 0, isValid = False, category = Invalid\<rparr>"
    if "trim s = [] \<or> length (split CHR ''/'' s) \<noteq> 2
        \<or> (\<exists>p \<in> set (split CHR ''/'' s). trim p = [] \<or> isNaN (Number_str p))"
    using bp_unparsed[OF that] by (simp add: invalid_bp_def)
  show ?thesis
    using e1 e2 e3 e4 e5 e6 u v bp_absent by (simp add: invalid_bp_def)
qed

theorem scoreBloodPressure_bands_witness:
  "length (split CHR ''/'' ''12/3/4'') \<noteq> 2
   \<and> scoreBloodPressure (Value ''12/3/4'') = \<lparr>score = 0, isValid = False, category = Invalid\<rparr>
   \<and> split CHR ''/'' '' 118 / 85'' = ['' 118 '', '' 85''] \<and> trim '' 118 '' \<noteq> [] \<and> trim '' 85'' \<noteq> []
   \<and> \<not> isNaN (Number_str '' 118 '') \<and> \<not> isNaN (Number_str '' 85'')
   \<and> scoreBloodPressure (Value '' 118 / 85'') = \<lparr>score = 3, isValid = True, category = Stage1\<rparr>"
proof -
  have h1: "length (split CHR ''/'' ''12/3/4'') \<noteq> 2"
    by code_simp
  have h2: "split CHR ''/'' '' 118 / 85'' = ['' 118 '', '' 85''] \<and> trim '' 118 '' \<noteq> [] \<and> trim '' 85'' \<noteq> []
     \<and> \<not> isNaN (Number_str '' 118 '') \<and> \<not> isNaN (Number_str '' 85'')"
    by code_simp
  have h3: "max (spec_systolicBand (Number_str '' 118 ''))
                (spec_diastolicBand (Number_str '' 118 '') (Number_str '' 85'')) = 3"
    by code_simp
  have h4: "spec_category 3 = Stage1"
    by code_simp
  from scoreBloodPressure_bands[where s = "''12/3/4''" and t = "'' 118 / 85''"
      and a = "'' 118 ''" and b = "'' 85''"] h1 h2 h3 h4
  show ?thesis by simp
qed

text \<open>
  C9: a valid blood-pressure result scores between 1 and 4. The systolic band is at least 1;
  when the diastolic value is below 80 and the systolic value is 130 or more the diastolic
  band is 0 and the final score is still at least 1. Hence the score is 0 exactly when the
  result is invalid, exactly when its category is Invalid.
\<close>

theorem scoreBloodPressure_valid_range:
  "(isValid (scoreBloodPressure bp)
      \<longrightarrow> 1 \<le> score (scoreBloodPressure bp) \<and> score (scoreBloodPressure bp) \<le> 4)
   \<and> 1 \<le> systolicScore x
   \<and> (num_less d (Fin 80) \<and> num_ge x (Fin 130)
        \<longrightarrow> diastolicScore x d = 0 \<and> 1 \<le> max (systolicScore x) (diastolicScore x d))
   \<and> (score (scoreBloodPressure bp) = 0) = (\<not> isValid (scoreBloodPressure bp))
   \<and> (\<not> isValid (scoreBloodPressure bp)) = (category (scoreBloodPressure bp) = Invalid)"
proof -
  have c: "category_of n \<noteq> Invalid" for n
    by (simp add: category_of_def)
  have m: "1 \<le> max (systolicScore x) (diastolicScore x y)
           \<and> max (systolicScore x) (diastolicScore x y) \<le> 4" for x y
    using systolicScore_range[of x] diastolicScore_range[of x y] by linarith
  have z: "diastolicScore x d = 0" if "num_less d (Fin 80)" "num_ge x (Fin 130)"
    using that
    by (cases x; cases d) (auto simp: diastolicScore_def fl_literals num_ge_def isNaN_def)
  have r: "(isValid (scoreBloodPressure bp)
      \<longrightarrow> 1 \<le> score (scoreBloodPressure bp) \<and> score (scoreBloodPressure bp) \<le> 4)
     \<and> (score (scoreBloodPressure bp) = 0) = (\<not> isValid (scoreBloodPressure bp))
     \<and> (\<not> isValid (scoreBloodPressure bp)) = (category (scoreBloodPressure bp) = Invalid)"
    using bp_cases[of bp]
  proof
    assume "scoreBloodPressure bp = invalid_bp"
    then show ?thesis by (simp add: invalid_bp_def)
  next
    assume "\<exists>x y. scoreBloodPressure bp =
         \<lparr>score = max (systolicScore x) (diastolicScore x y), isValid = True,
          category = category_of (max (systolicScore x) (diastolicScore x y))\<rparr>"
    then obtain x y where "scoreBloodPressure bp =
         \<lparr>score = max (systolicScore x) (diastolicScore x y), isValid = True,
          category = category_of (max (systolicScore x) (diastolicScore x y))\<rparr>" by blast
    then show ?thesis using m[of x y] c by simp
  qed
  show ?thesis
    using r z m[of x d] systolicScore_range[of x] by simp
qed

theorem scoreBloodPressure_valid_range_witness:
  "isValid (scoreBloodPressure (Value ''135/70''))
   \<and> score (scoreBloodPressure (Value ''135/70'')) = 3
   \<and> num_less (Fin 70) (Fin 80) \<and> num_ge (Fin 135) (Fin 130)
   \<and> diastolicScore (Fin 135) (Fin 70) = 0
   \<and> 1 \<le> max (systolicScore (Fin 135)) (diastolicScore (Fin 135) (Fin 70))"
proof -
  have h1: "isValid (scoreBloodPressure (Value ''135/70''))
            \<and> score (scoreBloodPressure (Value ''135/70'')) = 3"
    by code_simp
  have h2: "num_less (Fin 70) (Fin 80) \<and> num_ge (Fin 135) (Fin 130)"
    by code_simp
  from scoreBloodPressure_valid_range[where bp = "Value ''135/70''" and x = "Fin 135"
      and d = "Fin 70"] h1 h2
  show ?thesis by simp
qed

text \<open>
  C4: an absent temperature or a string that converts to NaN scores 0 and is invalid; a
  numeric reading is valid and scores 2 from 101.0, 1 in [99.6, 101.0) and 0 up to 99.5.
  The readings 99.5, 99.6 and 101.0 score 0, 1 and 2 and are valid.
\<close>

theorem scoreTemperature_bands:
  "scoreTemperature Null = \<lparr>score = 0, isValid = False\<rparr>
   \<and> scoreTemperature Undefined = \<lparr>score = 0, isValid = False\<rparr>
   \<and> (isNaN (Number_str s) \<longrightarrow> scoreTemperature (Value (Str s)) = \<lparr>score = 0, isValid = False\<rparr>)
   \<and> (\<not> isNaN (to_number v) \<longrightarrow> isValid (scoreTemperature (Value v)))
   \<and> (num_ge (to_number v) (Fin 101)
        \<longrightarrow> scoreTemperature (Value v) = \<lparr>score = 2, isValid = True\<rparr>)
   \<and> (num_ge (to_number v) (Fin (996 / 10)) \<and> num_less (to_number v) (Fin 101)
        \<longrightarrow> scoreTemperature (Value v) = \<lparr>score = 1, isValid = True\<rparr>)
   \<and> (num_le (to_number v) (Fin (995 / 10))
        \<longrightarrow> scoreTemperature (Value v) = \<lparr>score = 0, isValid = True\<rparr>)
   \<and> scoreTemperature (Value (Num (fl (995 / 10)))) = \<lparr>score = 0, isValid = True\<rparr>
   \<and> scoreTemperature (Value (Num (fl (996 / 10)))) = \<lparr>score = 1, isValid = True\<rparr>
   \<and> scoreTemperature (Value (Num (fl 101))) = \<lparr>score = 2, isValid = True\<rparr>
   \<and> scoreTemperature (Value (Str ''99.5'')) = \<lparr>score = 0, isValid = True\<rparr>
   \<and> scoreTemperature (Value (Str ''99.6'')) = \<lparr>score = 1, isValid = True\<rparr>
   \<and> scoreTemperature (Value (Str ''101.0'')) = \<lparr>score = 2, isValid = True\<rparr>"
proof -
  have g: "scoreTemperature (Value v) =
      (if num_ge (to_number v) (Fin 101) then \<lparr>score = 2, isValid = True\<rparr>
       else if num_ge (to_number v) (Fin (3504363460047667 / 35184372088832))
            then \<lparr>score = 1, isValid = True\<rparr>
       else \<lparr>score = 0, isValid = True\<rparr>)" if "\<not> isNaN (to_number v)"
    using that by (simp add: scoreTemperature_def Let_def fl_literals)
  have a: "scoreTemperature (Value v) = \<lparr>score = 2, isValid = True\<rparr>"
    if "num_ge (to_number v) (Fin 101)"
    using that g by (simp add: num_ge_def)
  have b: "scoreTemperature (Value v) = \<lparr>score = 1, isValid = True\<rparr>"
    if "num_ge (to_number v) (Fin (996 / 10))" "num_less (to_number v) (Fin 101)"
    using that g by (cases "to_number v") (auto simp: num_ge_def isNaN_def)
  have c: "scoreTemperature (Value v) = \<lparr>score = 0, isValid = True\<rparr>"
    if "num_le (to_number v) (Fin (995 / 10))"
    using that g by (cases "to_number v") (auto simp: num_ge_def num_le_def isNaN_def)
  have d: "isValid (scoreTemperature (Value v))" if "\<not> isNaN (to_number v)"
    using that by (simp add: scoreTemperature_valid)
  have e: "scoreTemperature (Value (Str s)) = \<lparr>score = 0, isValid = False\<rparr>"
    if "isNaN (Number_str s)"
    using that by (simp add: scoreTemperature_def to_number_def)
  have x1: "scoreTemperature (Value (Num (fl (995 / 10)))) = \<lparr>score = 0, isValid = True\<rparr>"
    by code_simp
  have x2: "scoreTemperature (Value (Num (fl (996 / 10)))) = \<lparr>score = 1, isValid = True\<rparr>"
    by code_simp
  have x3: "scoreTemperature (Value (Num (fl 101))) = \<lparr>score = 2, isValid = True\<rparr>"
    by code_simp
  have x4: "scoreTemperature (Value (Str ''99.5'')) = \<lparr>score = 0, isValid = True\<rparr>"
    by code_simp
  have x5: "scoreTemperature (Value (Str ''99.6'')) = \<lparr>score = 1, isValid = True\<rparr>"
    by code_simp
  have x6: "scoreTemperature (Value (Str ''101.0'')) = \<lparr>score = 2, isValid = True\<rparr>"
    by code_simp
  show ?thesis
    using a b c d e x1 x2 x3 x4 x5 x6 by (simp add: scoreTemperature_def)
qed

theorem scoreTemperature_bands_witness:
  "isNaN (Number_str ''hot'')
   \<and> scoreTemperature (Value (Str ''hot'')) = \<lparr>score = 0, isValid = False\<rparr>
   \<and> num_ge (to_number (Str ''100.4'')) (Fin (996 / 10))
   \<and> num_less (to_number (Str ''100.4'')) (Fin 101)
   \<and> scoreTemperature (Value (Str ''100.4'')) = \<lparr>score = 1, isValid = True\<rparr>
   \<and> num_ge (to_number (Num PosInf)) (Fin 101)
   \<and> scoreTemperature (Value (Num PosInf)) = \<lparr>score = 2, isValid = True\<rparr>
   \<and> num_le (to_number (Num (Fin 98))) (Fin (995 / 10))
   \<and> scoreTemperature (Value (Num (Fin 98))) = \<lparr>score = 0, isValid = True\<rparr>"
proof -
  have h1: "isNaN (Number_str ''hot'')" by code_simp
  have h2: "num_ge (to_number (Str ''100.4'')) (Fin (996 / 10))
            \<and> num_less (to_number (Str ''100.4'')) (Fin 101)" by code_simp
  have h3: "num_ge (to_number (Num PosInf)) (Fin 101)" by code_simp
  have h4: "num_le (to_number (Num (Fin 98))) (Fin (995 / 10))" by code_simp
  from scoreTemperature_bands[where s = "''hot''" and v = "Str ''100.4''"] h1 h2
  have a: "scoreTemperature (Value (Str ''hot'')) = \<lparr>score = 0, isValid = False\<rparr>
           \<and> scoreTemperature (Value (Str ''100.4'')) = \<lparr>score = 1, isValid = True\<rparr>"
    by blast
  from scoreTemperature_bands[where v = "Num PosInf"] h3
  have b: "scoreTemperature (Value (Num PosInf)) = \<lparr>score = 2, isValid = True\<rparr>"
    by blast
  from scoreTemperature_bands[where v = "Num (Fin 98)"] h4
  have c: "scoreTemperature (Value (Num (Fin 98))) = \<lparr>score = 0, isValid = True\<rparr>"
    by blast
  from a b c h1 h2 h3 h4 show ?thesis by blast
qed

text \<open>
  C10: the empty string, and any string of white space, converts to 0: as a temperature
  it is a valid reading of score 0, and the empty string as an age is a valid reading of
  score 1. Such a record raises no data-quality flag through these two fields, while an
  absent (null or undefined) temperature or age always raises it.
\<close>

theorem empty_string_vitals_valid:
  "scoreTemperature (Value (Str '''')) = \<lparr>score = 0, isValid = True\<rparr>
   \<and> ((\<forall>c \<in> set s. is_ws c) \<longrightarrow> scoreTemperature (Value (Str s)) = \<lparr>score = 0, isValid = True\<rparr>)
   \<and> scoreAge (Value (Str '''')) = \<lparr>score = 1, isValid = True\<rparr>
   \<and> Number_str '''' = Fin 0
   \<and> ((\<forall>c \<in> set s. is_ws c) \<and> Patient.temperature p = Value (Str s)
        \<and> Patient.age p = Value (Str '''')
       \<longrightarrow> hasDataQualityIssues (assessPatientRisk p)
             = (\<not> isValid (scoreBloodPressure (blood_pressure p))))
   \<and> (Patient.temperature p \<in> {Null, Undefined} \<or> Patient.age p \<in> {Null, Undefined}
       \<longrightarrow> hasDataQualityIssues (assessPatientRisk p))"
proof -
  have n: "Number_str '''' = Fin 0"
    by (simp add: Number_str_blank)
  have t: "scoreTemperature (Value (Str s)) = \<lparr>score = 0, isValid = True\<rparr>"
    if "\<forall>c \<in> set s. is_ws c" for s
    using scoreTemperature_finite[of "Str s" 0] Number_str_blank[OF that]
    by (simp add: to_number_def)
  have a: "scoreAge (Value (Str '''')) = \<lparr>score = 1, isValid = True\<rparr>"
    by (simp add: scoreAge_def to_number_def n Let_def isNaN_def num_gt_def num_ge_def fl_literals)
  have q: "hasDataQualityIssues (assessPatientRisk p)
             = (\<not> isValid (scoreBloodPressure (blood_pressure p)))"
    if "\<forall>c \<in> set s. is_ws c" "Patient.temperature p = Value (Str s)"
       "Patient.age p = Value (Str '''')"
    using that t[OF that(1)] a
    by (simp add: assessPatientRisk_def Let_def Patient.extend_def)
  have r: "hasDataQualityIssues (assessPatientRisk p)"
    if "Patient.temperature p \<in> {Null, Undefined} \<or> Patient.age p \<in> {Null, Undefined}"
    using that
    by (auto simp: assessPatientRisk_def Let_def Patient.extend_def scoreTemperature_def
                   scoreAge_def)
  show ?thesis
    using n t[of "''''"] t[of s] a q r by simp
qed

theorem empty_string_vitals_valid_witness:
  "is_ws CHR '' ''
   \<and> scoreTemperature (Value (Str '' '')) = \<lparr>score = 0, isValid = True\<rparr>
   \<and> \<not> hasDataQualityIssues (assessPatientRisk
         \<lparr>patient_id = ''P1'', name = ''A'', age = Value (Str ''''), gender = ''F'',
          blood_pressure = Value ''110/70'', temperature = Value (Str '' ''),
          visit_date = '''', diagnosis = '''', medications = ''''\<rparr>)
   \<and> hasDataQualityIssues (assessPatientRisk
         \<lparr>patient_id = ''P1'', name = ''A'', age = Value (Str ''''), gender = ''F'',
          blood_pressure = Value ''110/70'', temperature = Null,
          visit_date = '''', diagnosis = '''', medications = ''''\<rparr>)"
proof -
  let ?p = "\<lparr>patient_id = ''P1'', name = ''A'', age = Value (Str ''''), gender = ''F'',
          blood_pressure = Value ''110/70'', temperature = Value (Str '' ''),
          visit_date = '''', diagnosis = '''', medications = ''''\<rparr>"
  let ?q = "\<lparr>patient_id = ''P1'', name = ''A'', age = Value (Str ''''), gender = ''F'',
          blood_pressure = Value ''110/70'', temperature = Null :: numstr nullable,
          visit_date = '''', diagnosis = '''', medications = ''''\<rparr>"
  have h1: "\<forall>c \<in> set '' ''. is_ws c" by code_simp
  have h2: "isValid (scoreBloodPressure (Value ''110/70''))" by code_simp
  from empty_string_vitals_valid[where s = "'' ''" and p = ?p] h1 h2
  have a: "scoreTemperature (Value (Str '' '')) = \<lparr>score = 0, isValid = True\<rparr>
           \<and> \<not> hasDataQualityIssues (assessPatientRisk ?p)"
    by simp
  from empty_string_vitals_valid[where s = "'' ''" and p = ?q]
  have b: "hasDataQualityIssues (assessPatientRisk ?q)"
    by simp
  have h3: "is_ws CHR '' ''" by code_simp
  from a b h3 show ?thesis by blast
qed

text \<open>
  C5: the assessment's total is the sum of the three field scores and is never negative;
  the record is high risk exactly when the total is at least 4, has a data-quality issue
  exactly when one of the three results is invalid, and has fever exactly when the
  temperature result is valid and the converted temperature is at least 99.6: a number
  at least 99.6, or a string whose conversion is at least 99.6, and never an absent
  temperature; the fields of the input record are carried over unchanged.
\<close>

theorem assessPatientRisk_flags:
  "RiskScore.total (riskScore (assessPatientRisk p))
     = score (scoreBloodPressure (blood_pressure p))
       + score (scoreTemperature (Patient.temperature p))
       + score (scoreAge (Patient.age p))
   \<and> RiskScore.total (riskScore (assessPatientRisk p))
     = bloodPressure (riskScore (assessPatientRisk p))
       + RiskScore.temperature (riskScore (assessPatientRisk p))
       + RiskScore.age (riskScore (assessPatientRisk p))
   \<and> 0 \<le> RiskScore.total (riskScore (assessPatientRisk p))
   \<and> isHighRisk (assessPatientRisk p) = (4 \<le> RiskScore.total (riskScore (assessPatientRisk p)))
   \<and> hasDataQualityIssues (assessPatientRisk p)
     = (\<not> isValid (scoreBloodPressure (blood_pressure p))
        \<or> \<not> isValid (scoreTemperature (Patient.temperature p))
        \<or> \<not> isValid (scoreAge (Patient.age p)))
   \<and> hasFever (assessPatientRisk p)
     = (isValid (scoreTemperature (Patient.temperature p))
        \<and> num_ge (Number_field (Patient.temperature p)) (fl (996 / 10)))
   \<and> (Patient.temperature p = Value (Num n)
        \<longrightarrow> hasFever (assessPatientRisk p) = num_ge n (fl (996 / 10)))
   \<and> (Patient.temperature p = Value (Str s)
        \<longrightarrow> hasFever (assessPatientRisk p) = num_ge (Number_str s) (fl (996 / 10)))
   \<and> (Patient.temperature p = Null \<or> Patient.temperature p = Undefined
        \<longrightarrow> \<not> hasFever (assessPatientRisk p))
   \<and> (Patient.temperature p = Value (Num (Fin t))
        \<longrightarrow> (996 / 10 \<le> t \<longrightarrow> hasFever (assessPatientRisk p))
          \<and> (t \<le> 995 / 10 \<longrightarrow> \<not> hasFever (assessPatientRisk p)))
   \<and> Patient.truncate (assessPatientRisk p) = p"
proof -
  have f: "Patient.temperature p \<noteq> Null \<and> Patient.temperature p \<noteq> Undefined"
    if "isValid (scoreTemperature (Patient.temperature p))"
    using that by (auto simp: scoreTemperature_valid)
  have z: "0 \<le> score (scoreBloodPressure (blood_pressure p))
       + score (scoreTemperature (Patient.temperature p))
       + score (scoreAge (Patient.age p))"
    using scoreBloodPressure_range[of "blood_pressure p"]
      scoreTemperature_range[of "Patient.temperature p"] scoreAge_range[of "Patient.age p"]
    by linarith
  have tr: "Patient.truncate (assessPatientRisk p) = p"
    by (simp add: assessPatientRisk_def Let_def Patient.extend_def Patient.truncate_def)
  have hf: "hasFever (assessPatientRisk p)
     = (isValid (scoreTemperature (Patient.temperature p))
        \<and> num_ge (Number_field (Patient.temperature p)) (fl (996 / 10)))"
    using f by (auto simp: assessPatientRisk_def Let_def Patient.extend_def)
  have fn: "hasFever (assessPatientRisk p) = num_ge n (fl (996 / 10))"
    if "Patient.temperature p = Value (Num n)" for n
    unfolding hf using that
    by (auto simp: scoreTemperature_valid Number_field_def to_number_def num_ge_def)
  have fs: "hasFever (assessPatientRisk p) = num_ge (Number_str s) (fl (996 / 10))"
    if "Patient.temperature p = Value (Str s)"
    unfolding hf using that
    by (auto simp: scoreTemperature_valid Number_field_def to_number_def num_ge_def)
  have fa: "\<not> hasFever (assessPatientRisk p)"
    if "Patient.temperature p = Null \<or> Patient.temperature p = Undefined"
    unfolding hf using that by (auto simp: scoreTemperature_def)
  have ft: "(996 / 10 \<le> t \<longrightarrow> hasFever (assessPatientRisk p))
          \<and> (t \<le> 995 / 10 \<longrightarrow> \<not> hasFever (assessPatientRisk p))"
    if "Patient.temperature p = Value (Num (Fin t))"
    unfolding fn[OF that] by (simp add: num_ge_def isNaN_def fl_literals)
  have rest: "RiskScore.total (riskScore (assessPatientRisk p))
     = score (scoreBloodPressure (blood_pressure p))
       + score (scoreTemperature (Patient.temperature p))
       + score (scoreAge (Patient.age p))
   \<and> RiskScore.total (riskScore (assessPatientRisk p))
     = bloodPressure (riskScore (assessPatientRisk p))
       + RiskScore.temperature (riskScore (assessPatientRisk p))
       + RiskScore.age (riskScore (assessPatientRisk p))
   \<and> 0 \<le> RiskScore.total (riskScore (assessPatientRisk p))
   \<and> isHighRisk (assessPatientRisk p) = (4 \<le> RiskScore.total (riskScore (assessPatientRisk p)))
   \<and> hasDataQualityIssues (assessPatientRisk p)
     = (\<not> isValid (scoreBloodPressure (blood_pressure p))
        \<or> \<not> isValid (scoreTemperature (Patient.temperature p))
        \<or> \<not> isValid (scoreAge (Patient.age p)))"
    using z by (auto simp: assessPatientRisk_def Let_def Patient.extend_def)
  show ?thesis
    using rest hf fn fs fa ft tr by blast
qed

theorem assessPatientRisk_flags_witness:
  "RiskScore.total (riskScore (assessPatientRisk
      \<lparr>patient_id = ''P7'', name = ''B'', age = Value (Num (Fin 70)), gender = ''M'',
       blood_pressure = Value ''150/95'', temperature = Value (Str ''101.2''),
       visit_date = ''2024-01-01'', diagnosis = ''x'', medications = ''y''\<rparr>)) = 8
   \<and> isHighRisk (assessPatientRisk
      \<lparr>patient_id = ''P7'', name = ''B'', age = Value (Num (Fin 70)), gender = ''M'',
       blood_pressure = Value ''150/95'', temperature = Value (Str ''101.2''),
       visit_date = ''2024-01-01'', diagnosis = ''x'', medications = ''y''\<rparr>)
   \<and> hasFever (assessPatientRisk
      \<lparr>patient_id = ''P7'', name = ''B'', age = Value (Num (Fin 70)), gender = ''M'',
       blood_pressure = Value ''150/95'', temperature = Value (Str ''101.2''),
       visit_date = ''2024-01-01'', diagnosis = ''x'', medications = ''y''\<rparr>)
   \<and> \<not> hasDataQualityIssues (assessPatientRisk
      \<lparr>patient_id = ''P7'', name = ''B'', age = Value (Num (Fin 70)), gender = ''M'',
       blood_pressure = Value ''150/95'', temperature = Value (Str ''101.2''),
       visit_date = ''2024-01-01'', diagnosis = ''x'', medications = ''y''\<rparr>)
   \<and> RiskScore.total (riskScore (assessPatientRisk
      \<lparr>patient_id = ''P8'', name = ''C'', age = Value (Str ''35''), gender = ''F'',
       blood_pressure = Value ''110/70'', temperature = Value (Num (Fin (986 / 10))),
       visit_date = ''2024-01-02'', diagnosis = ''x'', medications = ''y''\<rparr>)) = 2
   \<and> \<not> isHighRisk (assessPatientRisk
      \<lparr>patient_id = ''P8'', name = ''C'', age = Value (Str ''35''), gender = ''F'',
       blood_pressure = Value ''110/70'', temperature = Value (Num (Fin (986 / 10))),
       visit_date = ''2024-01-02'', diagnosis = ''x'', medications = ''y''\<rparr>)
   \<and> \<not> hasFever (assessPatientRisk
      \<lparr>patient_id = ''P8'', name = ''C'', age = Value (Str ''35''), gender = ''F'',
       blood_pressure = Value ''110/70'', temperature = Value (Num (Fin (986 / 10))),
       visit_date = ''2024-01-02'', diagnosis = ''x'', medications = ''y''\<rparr>)
   \<and> \<not> hasDataQualityIssues (assessPatientRisk
      \<lparr>patient_id = ''P8'', name = ''C'', age = Value (Str ''35''), gender = ''F'',
       blood_pressure = Value ''110/70'', temperature = Value (Num (Fin (986 / 10))),
       visit_date = ''2024-01-02'', diagnosis = ''x'', medications = ''y''\<rparr>)
   \<and> \<not> hasFever (assessPatientRisk
      \<lparr>patient_id = ''P9'', name = ''D'', age = Value (Num (Fin 41)), gender = ''F'',
       blood_pressure = Value ''110/70'', temperature = Value (Str ''99.5''),
       visit_date = ''2024-01-03'', diagnosis = ''x'', medications = ''y''\<rparr>)
   \<and> hasFever (assessPatientRisk
      \<lparr>patient_id = ''P9'', name = ''D'', age = Value (Num (Fin 41)), gender = ''F'',
       blood_pressure = Value ''110/70'', temperature = Value (Str ''99.6''),
       visit_date = ''2024-01-03'', diagnosis = ''x'', medications = ''y''\<rparr>)
   \<and> \<not> hasFever (assessPatientRisk
      \<lparr>patient_id = ''P9'', name = ''D'', age = Value (Num (Fin 41)), gender = ''F'',
       blood_pressure = Value ''110/70'', temperature = Value (Str ''warm''),
       visit_date = ''2024-01-03'', diagnosis = ''x'', medications = ''y''\<rparr>)
   \<and> \<not> hasFever (assessPatientRisk
      \<lparr>patient_id = ''P9'', name = ''D'', age = Value (Num (Fin 41)), gender = ''F'',
       blood_pressure = Value ''110/70'', temperature = Null,
       visit_date = ''2024-01-03'', diagnosis = ''x'', medications = ''y''\<rparr>)"
proof -
  let ?p7 = "\<lparr>patient_id = ''P7'', name = ''B'', age = Value (Num (Fin 70)), gender = ''M'',
       blood_pressure = Value ''150/95'', temperature = Value (Str ''101.2''),
       visit_date = ''2024-01-01'', diagnosis = ''x'', medications = ''y''\<rparr>"
  let ?p8 = "\<lparr>patient_id = ''P8'', name = ''C'', age = Value (Str ''35''), gender = ''F'',
       blood_pressure = Value ''110/70'', temperature = Value (Num (Fin (986 / 10))),
       visit_date = ''2024-01-02'', diagnosis = ''x'', medications = ''y''\<rparr>"
  let ?p9 = "\<lambda>t. \<lparr>patient_id = ''P9'', name = ''D'', age = Value (Num (Fin 41)), gender = ''F'',
       blood_pressure = Value ''110/70'', temperature = t,
       visit_date = ''2024-01-03'', diagnosis = ''x'', medications = ''y''\<rparr>"
  have h1: "scoreBloodPressure (Value ''150/95'')
              = \<lparr>score = 4, isValid = True, category = Stage2\<rparr>" by code_simp
  have h2: "scoreTemperature (Value (Str ''101.2'')) = \<lparr>score = 2, isValid = True\<rparr>"
    by code_simp
  have h3: "scoreAge (Value (Num (Fin 70))) = \<lparr>score = 2, isValid = True\<rparr>" by code_simp
  have h4: "num_ge (Number_str ''101.2'') (fl (996 / 10))" by code_simp
  have h5: "num_ge (Number_field (Value (Str ''101.2''))) (fl (996 / 10))" by code_simp
  have k1: "scoreBloodPressure (Value ''110/70'')
              = \<lparr>score = 1, isValid = True, category = Normal\<rparr>" by code_simp
  have k2: "scoreTemperature (Value (Num (Fin (986 / 10)))) = \<lparr>score = 0, isValid = True\<rparr>"
    by code_simp
  have k3: "scoreAge (Value (Str ''35'')) = \<lparr>score = 1, isValid = True\<rparr>" by code_simp
  have k4: "(986 / 10 :: rat) \<le> 995 / 10" by simp
  have m1: "\<not> num_ge (Number_str ''99.5'') (fl (996 / 10))" by code_simp
  have m2: "num_ge (Number_str ''99.6'') (fl (996 / 10))" by code_simp
  have m3: "\<not> num_ge (Number_str ''warm'') (fl (996 / 10))" by code_simp
  have t7: "Patient.temperature ?p7 = Value (Str ''101.2'')" by simp
  have t8: "Patient.temperature ?p8 = Value (Num (Fin (986 / 10)))" by simp
  have t9: "Patient.temperature (?p9 t) = t" for t by simp
  note a = assessPatientRisk_flags[where p = ?p7 and s = "''101.2''"]
  note b = assessPatientRisk_flags[where p = ?p8 and t = "986 / 10"]
  note c1 = assessPatientRisk_flags[where p = "?p9 (Value (Str ''99.5''))" and s = "''99.5''"]
  note c2 = assessPatientRisk_flags[where p = "?p9 (Value (Str ''99.6''))" and s = "''99.6''"]
  note c3 = assessPatientRisk_flags[where p = "?p9 (Value (Str ''warm''))" and s = "''warm''"]
  note c4 = assessPatientRisk_flags[where p = "?p9 Null"]
  have a1: "RiskScore.total (riskScore (assessPatientRisk ?p7)) = 8"
    using a[THEN conjunct1] h1 h2 h3 by simp
  have a4: "isHighRisk (assessPatientRisk ?p7)"
    using a[THEN conjunct2, THEN conjunct2, THEN conjunct2, THEN conjunct1] a1 by simp
  have a5: "\<not> hasDataQualityIssues (assessPatientRisk ?p7)"
    using a[THEN conjunct2, THEN conjunct2, THEN conjunct2, THEN conjunct2, THEN conjunct1] h1 h2 h3 by simp
  have a8: "hasFever (assessPatientRisk ?p7)"
    using a[THEN conjunct2, THEN conjunct2, THEN conjunct2, THEN conjunct2, THEN conjunct2, THEN conjunct2, THEN conjunct2, THEN conjunct1, THEN mp, OF t7] h4 by simp
  have b1: "RiskScore.total (riskScore (assessPatientRisk ?p8)) = 2"
    using b[THEN conjunct1] k1 k2 k3 by simp
  have b4: "\<not> isHighRisk (assessPatientRisk ?p8)"
    using b[THEN conjunct2, THEN conjunct2, THEN conjunct2, THEN conjunct1] b1 by simp
  have b5: "\<not> hasDataQualityIssues (assessPatientRisk ?p8)"
    using b[THEN conjunct2, THEN conjunct2, THEN conjunct2, THEN conjunct2, THEN conjunct1] k1 k2 k3 by simp
  have b10: "\<not> hasFever (assessPatientRisk ?p8)"
    using b[THEN conjunct2, THEN conjunct2, THEN conjunct2, THEN conjunct2, THEN conjunct2, THEN conjunct2, THEN conjunct2, THEN conjunct2, THEN conjunct2, THEN conjunct1, THEN mp, OF t8, THEN conjunct2, THEN mp, OF k4] .
  have g9: "\<not> hasFever (assessPatientRisk (?p9 (Value (Str ''99.5''))))"
    "hasFever (assessPatientRisk (?p9 (Value (Str ''99.6''))))"
    "\<not> hasFever (assessPatientRisk (?p9 (Value (Str ''warm''))))"
    "\<not> hasFever (assessPatientRisk (?p9 Null))"
    using c1[THEN conjunct2, THEN conjunct2, THEN conjunct2, THEN conjunct2, THEN conjunct2, THEN conjunct2, THEN conjunct2, THEN conjunct1, THEN mp, OF t9] c2[THEN conjunct2, THEN conjunct2, THEN conjunct2, THEN conjunct2, THEN conjunct2, THEN conjunct2, THEN conjunct2, THEN conjunct1, THEN mp, OF t9]
      c3[THEN conjunct2, THEN conjunct2, THEN conjunct2, THEN conjunct2, THEN conjunct2, THEN conjunct2, THEN conjunct2, THEN conjunct1, THEN mp, OF t9] c4[THEN conjunct2, THEN conjunct2, THEN conjunct2, THEN conjunct2, THEN conjunct2, THEN conjunct2, THEN conjunct2, THEN conjunct2, THEN conjunct1, THEN mp, OF disjI1, OF t9] m1 m2 m3
    by simp_all
  show ?thesis
    using a1 a4 a5 a8 b1 b4 b5 b10 g9 by simp
qed

section \<open>Properties of the API client\<close>

declare fetchPatientsPage_loop.simps [simp del]
declare fetchAllPatients_loop.simps [simp del]
declare submitAssessment_loop.simps [simp del]
declare decimal.simps [simp del]

lemma fetches_snoc [simp]:
  "fetches (tr @ [Fetch r]) = fetches tr @ [r]"
  "fetches (tr @ [Sleep d]) = fetches tr"
  by (simp_all add: fetches_def)

lemma fetches_append [simp]: "fetches (tr @ tr') = fetches tr @ fetches tr'"
  by (simp add: fetches_def)

lemma fetches_simps [simp]:
  "fetches [] = []"
  "fetches (Fetch r # tr) = r # fetches tr"
  "fetches (Sleep d # tr) = fetches tr"
  by (simp_all add: fetches_def)

lemma sleeps_simps [simp]:
  "sleeps [] = []"
  "sleeps (Fetch r # tr) = sleeps tr"
  "sleeps (Sleep d # tr) = d # sleeps tr"
  "sleeps (tr @ tr') = sleeps tr @ sleeps tr'"
  by (simp_all add: sleeps_def)

lemma ok_not_retryable: "ok r \<Longrightarrow> \<not> isRetryableError (status r)"
  by (auto simp: ok_def isRetryableError_def)

text \<open>One pass of the retry loop of \<open>fetchPatientsPage\<close>.\<close>

lemma page_loop_step:
  assumes "attempt < 5"
  shows "fetchPatientsPage_loop env k u p l attempt le tr =
     (case fetchPatientsPage_try (now env) p l attempt
             (respond env (length (fetches tr)) (page_request k u p l)) of
        Continue d \<Rightarrow>
          fetchPatientsPage_loop env k u p l (attempt + 1) le
            (tr @ [Fetch (page_request k u p l), Sleep d])
      | Returned r \<Rightarrow> (Inr r, tr @ [Fetch (page_request k u p l)])
      | Thrown e \<Rightarrow>
          if attempt = 4 then (Inl e, tr @ [Fetch (page_request k u p l)])
          else fetchPatientsPage_loop env k u p l (attempt + 1) (Some e)
                 (tr @ [Fetch (page_request k u p l), Sleep (1000 * 2 ^ attempt)]))"
  using assms
  by (subst fetchPatientsPage_loop.simps)
     (simp add: MAX_RETRIES_def fetch_def sleep_def getExponentialBackoff_def BASE_DELAY_def
           split: attempt.splits)

lemma page_loop_end:
  "5 \<le> attempt \<Longrightarrow>
   fetchPatientsPage_loop env k u p l attempt le tr =
     (Inl (case le of Some e \<Rightarrow> e
           | None \<Rightarrow> Error (''Failed to fetch page '' @ decimal p @ '' after 5 attempts'')), tr)"
proof -
  assume "5 \<le> attempt"
  moreover have "decimal 5 = ''5''" by code_simp
  ultimately show ?thesis
    by (subst fetchPatientsPage_loop.simps) (simp add: MAX_RETRIES_def split: option.splits)
qed

lemma submit_loop_step:
  assumes "attempt < 5"
  shows "submitAssessment_loop env k u rs attempt le tr =
     (case submitAssessment_try attempt
             (respond env (length (fetches tr)) (submit_request k u rs)) of
        Continue d \<Rightarrow>
          submitAssessment_loop env k u rs (attempt + 1) le
            (tr @ [Fetch (submit_request k u rs), Sleep d])
      | Returned r \<Rightarrow> (Inr r, tr @ [Fetch (submit_request k u rs)])
      | Thrown e \<Rightarrow>
          if attempt = 4 then (Inl e, tr @ [Fetch (submit_request k u rs)])
          else submitAssessment_loop env k u rs (attempt + 1) (Some e)
                 (tr @ [Fetch (submit_request k u rs), Sleep (1000 * 2 ^ attempt)]))"
  using assms
  by (subst submitAssessment_loop.simps)
     (simp add: MAX_RETRIES_def fetch_def sleep_def getExponentialBackoff_def BASE_DELAY_def
           split: attempt.splits)

lemma submit_loop_end:
  "5 \<le> attempt \<Longrightarrow>
   submitAssessment_loop env k u rs attempt le tr =
     (Inl (case le of Some e \<Rightarrow> e
           | None \<Rightarrow> Error ''Failed to submit assessment after 5 attempts''), tr)"
proof -
  assume "5 \<le> attempt"
  moreover have "decimal 5 = ''5''" by code_simp
  ultimately show ?thesis
    by (subst submitAssessment_loop.simps) (simp add: MAX_RETRIES_def split: option.splits)
qed

text \<open>A call issues at most five requests.\<close>

lemma page_loop_fetches:
  "attempt \<le> 5 \<Longrightarrow>
   length (fetches (snd (fetchPatientsPage_loop env k u p l attempt le tr)))
     \<le> length (fetches tr) + (5 - attempt)"
proof (induction "5 - attempt" arbitrary: attempt le tr)
  case 0
  then have "attempt = 5" by simp
  then show ?case by (simp add: page_loop_end)
next
  case (Suc n)
  then have a: "attempt < 5" by simp
  have ih: "length (fetches (snd (fetchPatientsPage_loop env k u p l (attempt + 1) le' tr')))
     \<le> length (fetches tr') + (5 - (attempt + 1))" for le' tr'
    using Suc.hyps(1)[of "attempt + 1" le' tr'] Suc.hyps(2) a by simp
  show ?case
  proof (cases "fetchPatientsPage_try (now env) p l attempt
             (respond env (length (fetches tr)) (page_request k u p l))")
    case (Continue d)
    show ?thesis
      using ih[of le "tr @ [Fetch (page_request k u p l), Sleep d]"] a
      by (subst page_loop_step[OF a]) (simp add: Continue)
  next
    case (Returned r)
    show ?thesis using a by (subst page_loop_step[OF a]) (simp add: Returned)
  next
    case (Thrown e)
    show ?thesis
      using ih[of "Some e" "tr @ [Fetch (page_request k u p l), Sleep (1000 * 2 ^ attempt)]"] a
      by (subst page_loop_step[OF a]) (auto simp: Thrown)
  qed
qed

lemma submit_loop_fetches:
  "attempt \<le> 5 \<Longrightarrow>
   length (fetches (snd (submitAssessment_loop env k u rs attempt le tr)))
     \<le> length (fetches tr) + (5 - attempt)"
proof (induction "5 - attempt" arbitrary: attempt le tr)
  case 0
  then have "attempt = 5" by simp
  then show ?case by (simp add: submit_loop_end)
next
  case (Suc n)
  then have a: "attempt < 5" by simp
  have ih: "length (fetches (snd (submitAssessment_loop env k u rs (attempt + 1) le' tr')))
     \<le> length (fetches tr') + (5 - (attempt + 1))" for le' tr'
    using Suc.hyps(1)[of "attempt + 1" le' tr'] Suc.hyps(2) a by simp
  show ?case
  proof (cases "submitAssessment_try attempt
             (respond env (length (fetches tr)) (submit_request k u rs))")
    case (Continue d)
    show ?thesis
      using ih[of le "tr @ [Fetch (submit_request k u rs), Sleep d]"] a
      by (subst submit_loop_step[OF a]) (simp add: Continue)
  next
    case (Returned r)
    show ?thesis using a by (subst submit_loop_step[OF a]) (simp add: Returned)
  next
    case (Thrown e)
    show ?thesis
      using ih[of "Some e" "tr @ [Fetch (submit_request k u rs), Sleep (1000 * 2 ^ attempt)]"] a
      by (subst submit_loop_step[OF a]) (auto simp: Thrown)
  qed
qed

lemma page_try_retryable:
  "isRetryableError (status r) \<Longrightarrow>
   fetchPatientsPage_try nowISO p l attempt (Response r) =
     Continue (getExponentialBackoff attempt (if status r = 429 then 2000 else 1000))"
  by (simp add: fetchPatientsPage_try_def BASE_DELAY_def Let_def)

lemma submit_try_retryable:
  "isRetryableError (status r) \<Longrightarrow>
   submitAssessment_try attempt (Response r) =
     Continue (getExponentialBackoff attempt (if status r = 429 then 2000 else 1000))"
  by (simp add: submitAssessment_try_def BASE_DELAY_def Let_def)

lemma page_try_well_formed:
  "ok r \<Longrightarrow> json r = Inr (Object (Some ps) pg md) \<Longrightarrow>
   fetchPatientsPage_try nowISO p l attempt (Response r) =
     Returned \<lparr>data = ps, pagination = pg, metadata = md\<rparr>"
  by (simp add: fetchPatientsPage_try_def ok_not_retryable)

lemma page_try_no_data:
  "ok r \<Longrightarrow> json r = Inr (Object None pg md) \<Longrightarrow>
   fetchPatientsPage_try nowISO p l attempt (Response r) =
     Returned
       \<lparr>data = [],
        pagination =
          (case pg of
             Some q \<Rightarrow> Some q
           | None \<Rightarrow>
               Some \<lparr>page = int p, limit = int l, total = 0, totalPages = 1,
                     hasNext = False, hasPrevious = False\<rparr>),
        metadata =
          (case md of
             Some m \<Rightarrow> Some m
           | None \<Rightarrow> Some \<lparr>timestamp = nowISO, version = ''v1.0'', requestId = ''unknown''\<rparr>)\<rparr>"
  by (simp add: fetchPatientsPage_try_def ok_not_retryable)

text \<open>A call all of whose remaining attempts end in \<open>continue\<close>.\<close>

lemma page_loop_all_continue:
  assumes "a \<le> 5"
    and "\<forall>i. a \<le> i \<and> i < 5 \<longrightarrow>
           fetchPatientsPage_try (now env) p l i (respond env (n + i) (page_request k u p l))
             = Continue (d i)"
    and "length (fetches tr) = n + a"
  shows "fetchPatientsPage_loop env k u p l a le tr =
     (Inl (case le of Some e \<Rightarrow> e
           | None \<Rightarrow> Error (''Failed to fetch page '' @ decimal p @ '' after 5 attempts'')),
      tr @ concat (map (\<lambda>i. [Fetch (page_request k u p l), Sleep (d i)]) [a..<5]))"
  using assms
proof (induction "5 - a" arbitrary: a tr)
  case 0
  then show ?case by (simp add: page_loop_end)
next
  case (Suc m)
  then have a: "a < 5" by simp
  have t: "fetchPatientsPage_try (now env) p l a
             (respond env (length (fetches tr)) (page_request k u p l)) = Continue (d a)"
    using Suc.prems(2) Suc.prems(3) a by simp
  have ih: "fetchPatientsPage_loop env k u p l (Suc a) le
              (tr @ [Fetch (page_request k u p l), Sleep (d a)]) =
     (Inl (case le of Some e \<Rightarrow> e
           | None \<Rightarrow> Error (''Failed to fetch page '' @ decimal p @ '' after 5 attempts'')),
      (tr @ [Fetch (page_request k u p l), Sleep (d a)])
        @ concat (map (\<lambda>i. [Fetch (page_request k u p l), Sleep (d i)]) [Suc a..<5]))"
    using Suc.hyps(2) Suc.prems a by (intro Suc.hyps(1)) auto
  show ?case
    by (subst page_loop_step[OF a]) (simp add: t ih upt_conv_Cons[OF a])
qed

lemma submit_loop_all_continue:
  assumes "a \<le> 5"
    and "\<forall>i. a \<le> i \<and> i < 5 \<longrightarrow>
           submitAssessment_try i (respond env (n + i) (submit_request k u rs)) = Continue (d i)"
    and "length (fetches tr) = n + a"
  shows "submitAssessment_loop env k u rs a le tr =
     (Inl (case le of Some e \<Rightarrow> e
           | None \<Rightarrow> Error ''Failed to submit assessment after 5 attempts''),
      tr @ concat (map (\<lambda>i. [Fetch (submit_request k u rs), Sleep (d i)]) [a..<5]))"
  using assms
proof (induction "5 - a" arbitrary: a tr)
  case 0
  then show ?case by (simp add: submit_loop_end)
next
  case (Suc m)
  then have a: "a < 5" by simp
  have t: "submitAssessment_try a
             (respond env (length (fetches tr)) (submit_request k u rs)) = Continue (d a)"
    using Suc.prems(2) Suc.prems(3) a by simp
  have ih: "submitAssessment_loop env k u rs (Suc a) le
              (tr @ [Fetch (submit_request k u rs), Sleep (d a)]) =
     (Inl (case le of Some e \<Rightarrow> e
           | None \<Rightarrow> Error ''Failed to submit assessment after 5 attempts''),
      (tr @ [Fetch (submit_request k u rs), Sleep (d a)])
        @ concat (map (\<lambda>i. [Fetch (submit_request k u rs), Sleep (d i)]) [Suc a..<5]))"
    using Suc.hyps(2) Suc.prems a by (intro Suc.hyps(1)) auto
  show ?case
    by (subst submit_loop_step[OF a]) (simp add: t ih upt_conv_Cons[OF a])
qed

lemma page_all_retryable:
  assumes h: "\<forall>i<5. respond env (length (fetches tr) + i) (page_request k u p l) = Response (r i)
            \<and> isRetryableError (status (r i))"
  shows "fetchPatientsPage env k u p l tr =
           (Inl (Error (''Failed to fetch page '' @ decimal p @ '' after 5 attempts'')),
            tr @ concat (map (\<lambda>i. [Fetch (page_request k u p l),
                                    Sleep (getExponentialBackoff i
                                             (if status (r i) = 429 then 2000 else 1000))])
                          [0..<5]))"
proof -
  let ?d = "\<lambda>i. getExponentialBackoff i (if status (r i) = 429 then 2000 else 1000)"
  have "\<forall>i. 0 \<le> i \<and> i < 5 \<longrightarrow>
         fetchPatientsPage_try (now env) p l i
           (respond env (length (fetches tr) + i) (page_request k u p l)) = Continue (?d i)"
    using h by (simp add: page_try_retryable)
  from page_loop_all_continue[where a = 0 and n = "length (fetches tr)" and d = ?d
      and le = None and tr = tr, OF _ this]
  show ?thesis by (simp add: fetchPatientsPage_def)
qed

lemma submit_all_retryable:
  assumes h: "\<forall>i<5. respond env (length (fetches tr) + i) (submit_request k u rs) = Response (r i)
            \<and> isRetryableError (status (r i))"
  shows "submitAssessment env k u rs tr =
           (Inl (Error ''Failed to submit assessment after 5 attempts''),
            tr @ concat (map (\<lambda>i. [Fetch (submit_request k u rs),
                                    Sleep (getExponentialBackoff i
                                             (if status (r i) = 429 then 2000 else 1000))])
                          [0..<5]))"
proof -
  let ?d = "\<lambda>i. getExponentialBackoff i (if status (r i) = 429 then 2000 else 1000)"
  have "\<forall>i. 0 \<le> i \<and> i < 5 \<longrightarrow>
         submitAssessment_try i
           (respond env (length (fetches tr) + i) (submit_request k u rs)) = Continue (?d i)"
    using h by (simp add: submit_try_retryable)
  from submit_loop_all_continue[where a = 0 and n = "length (fetches tr)" and d = ?d
      and le = None and tr = tr, OF _ this]
  show ?thesis by (simp add: submitAssessment_def)
qed

lemma upt_5: "[0..<5] = [0, 1, 2, 3, 4]"
  by (simp add: upt_rec)

lemma decimal_1 [simp]: "decimal 1 = ''1''" "decimal (Suc 0) = ''1''"
  by code_simp+

lemma scripted_rest [simp]: "respond (scripted [] rest) i rq = rest"
  by (simp add: scripted_def)

lemma page_try_http_error:
  "\<not> isRetryableError (status r) \<Longrightarrow> \<not> ok r \<Longrightarrow>
   fetchPatientsPage_try nowISO p l attempt (Response r) =
     Thrown (Error (''HTTP '' @ decimal (status r) @ '': '' @ statusText r))"
  by (simp add: fetchPatientsPage_try_def)

lemma page_try_not_json:
  "ok r \<Longrightarrow> json r = Inl m \<Longrightarrow>
   fetchPatientsPage_try nowISO p l attempt (Response r) = Thrown (Error m)"
  by (simp add: fetchPatientsPage_try_def ok_not_retryable)

lemma submit_try_http_error:
  "\<not> isRetryableError (status r) \<Longrightarrow> \<not> ok r \<Longrightarrow>
   submitAssessment_try attempt (Response r) =
     Thrown (Error (''HTTP '' @ decimal (status r) @ '': '' @ bodyText r))"
  by (simp add: submitAssessment_try_def)

lemma submit_try_not_json:
  "ok r \<Longrightarrow> json r = Inl m \<Longrightarrow> submitAssessment_try attempt (Response r) = Thrown (Error m)"
  by (simp add: submitAssessment_try_def ok_not_retryable)

text \<open>A call none of whose first four attempts returns and whose fifth attempt throws.\<close>

lemma page_loop_fifth_throws:
  assumes "a \<le> 4"
    and "\<forall>i. a \<le> i \<and> i < 4 \<longrightarrow>
           (\<forall>x. fetchPatientsPage_try (now env) p l i
                   (respond env (n + i) (page_request k u p l)) \<noteq> Returned x)"
    and "fetchPatientsPage_try (now env) p l 4 (respond env (n + 4) (page_request k u p l))
           = Thrown e"
    and "length (fetches tr) = n + a"
  shows "fst (fetchPatientsPage_loop env k u p l a le tr) = Inl e
         \<and> length (fetches (snd (fetchPatientsPage_loop env k u p l a le tr))) = n + 5"
  using assms
proof (induction "4 - a" arbitrary: a tr le)
  case 0
  then have a: "a = 4" by simp
  have t: "fetchPatientsPage_try (now env) p l 4
             (respond env (length (fetches tr)) (page_request k u p l)) = Thrown e"
    using "0.prems"(3,4) a by simp
  have four: "(4::nat) < 5" by simp
  show ?case
    unfolding a page_loop_step[OF four, where env = env and k = k and u = u and p = p and l = l and le = le and tr = tr] t
    using "0.prems"(4) a by simp
next
  case (Suc m)
  then have a: "a < 4" by simp
  then have a5: "a < 5" by simp
  have nr: "fetchPatientsPage_try (now env) p l a
              (respond env (length (fetches tr)) (page_request k u p l)) \<noteq> Returned x" for x
    using Suc.prems(2) Suc.prems(4) a by simp
  have ih: "fst (fetchPatientsPage_loop env k u p l (Suc a) le' (tr @ [Fetch rq, Sleep d])) = Inl e
         \<and> length (fetches (snd (fetchPatientsPage_loop env k u p l (Suc a) le'
                                     (tr @ [Fetch rq, Sleep d])))) = n + 5" for le' rq d
    using Suc.hyps(2) Suc.prems a by (intro Suc.hyps(1)) auto
  show ?case
  proof (cases "fetchPatientsPage_try (now env) p l a
              (respond env (length (fetches tr)) (page_request k u p l))")
    case (Continue d)
    show ?thesis
      unfolding page_loop_step[OF a5, where env = env and k = k and u = u and p = p and l = l and le = le and tr = tr] Continue
      using ih[of le "page_request k u p l" d] by simp
  next
    case (Returned x)
    then show ?thesis using nr by simp
  next
    case (Thrown e')
    show ?thesis
      unfolding page_loop_step[OF a5, where env = env and k = k and u = u and p = p and l = l and le = le and tr = tr] Thrown
      using ih[of "Some e'" "page_request k u p l" "1000 * 2 ^ a"] a by simp
  qed
qed

lemma submit_loop_fifth_throws:
  assumes "a \<le> 4"
    and "\<forall>i. a \<le> i \<and> i < 4 \<longrightarrow>
           (\<forall>x. submitAssessment_try i (respond env (n + i) (submit_request k u rs))
                   \<noteq> Returned x)"
    and "submitAssessment_try 4 (respond env (n + 4) (submit_request k u rs)) = Thrown e"
    and "length (fetches tr) = n + a"
  shows "fst (submitAssessment_loop env k u rs a le tr) = Inl e
         \<and> length (fetches (snd (submitAssessment_loop env k u rs a le tr))) = n + 5"
  using assms
proof (induction "4 - a" arbitrary: a tr le)
  case 0
  then have a: "a = 4" by simp
  have t: "submitAssessment_try 4
             (respond env (length (fetches tr)) (submit_request k u rs)) = Thrown e"
    using "0.prems"(3,4) a by simp
  have four: "(4::nat) < 5" by simp
  show ?case
    unfolding a submit_loop_step[OF four, where env = env and k = k and u = u and rs = rs and le = le and tr = tr] t
    using "0.prems"(4) a by simp
next
  case (Suc m)
  then have a: "a < 4" by simp
  then have a5: "a < 5" by simp
  have nr: "submitAssessment_try a
              (respond env (length (fetches tr)) (submit_request k u rs)) \<noteq> Returned x" for x
    using Suc.prems(2) Suc.prems(4) a by simp
  have ih: "fst (submitAssessment_loop env k u rs (Suc a) le' (tr @ [Fetch rq, Sleep d])) = Inl e
         \<and> length (fetches (snd (submitAssessment_loop env k u rs (Suc a) le'
                                     (tr @ [Fetch rq, Sleep d])))) = n + 5" for le' rq d
    using Suc.hyps(2) Suc.prems a by (intro Suc.hyps(1)) auto
  show ?case
  proof (cases "submitAssessment_try a
              (respond env (length (fetches tr)) (submit_request k u rs))")
    case (Continue d)
    show ?thesis
      unfolding submit_loop_step[OF a5, where env = env and k = k and u = u and rs = rs and le = le and tr = tr] Continue
      using ih[of le "submit_request k u rs" d] by simp
  next
    case (Returned x)
    then show ?thesis using nr by simp
  next
    case (Thrown e')
    show ?thesis
      unfolding submit_loop_step[OF a5, where env = env and k = k and u = u and rs = rs and le = le and tr = tr] Thrown
      using ih[of "Some e'" "submit_request k u rs" "1000 * 2 ^ a"] a by simp
  qed
qed

lemma decimal_404: "decimal 404 = ''404''"
  by code_simp

text \<open>A page request answered at once by a success whose body is a JSON object.\<close>

lemma page_fetch_object:
  assumes "respond env (length (fetches tr)) (page_request k u p l) = Response r"
    and "ok r" and "json r = Inr (Object d pg md)"
  shows "\<exists>v. fetchPatientsPage env k u p l tr = (Inr v, tr @ [Fetch (page_request k u p l)])
             \<and> data v = records_of d
             \<and> totalPages_or_1 (pagination v) = totalPages_or_1 pg"
proof (cases d)
  case None
  have five: "(0::nat) < 5" by simp
  show ?thesis
    unfolding fetchPatientsPage_def page_loop_step[OF five] assms(1)
      page_try_no_data[OF assms(2) assms(3)[unfolded None]]
    by (simp add: records_of_def None totalPages_or_1_def split: option.splits)
next
  case (Some ps)
  have five: "(0::nat) < 5" by simp
  show ?thesis
    unfolding fetchPatientsPage_def page_loop_step[OF five] assms(1)
      page_try_well_formed[OF assms(2) assms(3)[unfolded Some]]
    by (simp add: records_of_def Some)
qed

lemma push_if_nonempty [simp]:
  "(if xs \<noteq> [] then acc @ xs else acc) = acc @ xs"
  "(if xs = [] then acc else acc @ xs) = acc @ xs"
  "(if xs \<noteq> [] then xs else []) = xs"
  "(if xs = [] then [] else xs) = xs"
  by simp_all

lemma upt_from: "j < N \<Longrightarrow> [j..<N] = j # [Suc j..<N]"
  by (rule upt_conv_Cons)

lemma all_pages_loop:
  assumes "j \<le> N"
    and "\<forall>i. j \<le> i \<and> i < N \<longrightarrow>
           respond env (n + i) (page_request k u (Suc i) 5) = Response (r i) \<and> ok (r i)
           \<and> json (r i) = Inr (Object (d i) (pg i) (md i))"
    and "length (fetches tr) = n + j"
  shows "fetchAllPatients_loop env k u (int N) (Suc j) acc tr =
           (Inr (acc @ concat (map (\<lambda>i. records_of (d i)) [j..<N])),
            tr @ concat (map (\<lambda>i. [Sleep 500, Fetch (page_request k u (Suc i) 5)]) [j..<N]))"
  using assms
proof (induction "N - j" arbitrary: j acc tr)
  case 0
  then have "j = N" by simp
  then show ?case by (subst fetchAllPatients_loop.simps) simp
next
  case (Suc m)
  then have j: "j < N" by simp
  let ?tr = "tr @ [Sleep 500]"
  have "respond env (length (fetches ?tr)) (page_request k u (Suc j) 5) = Response (r j)"
    "ok (r j)" "json (r j) = Inr (Object (d j) (pg j) (md j))"
    using Suc.prems(2) Suc.prems(3) j by simp_all
  from page_fetch_object[OF this] obtain v where
    v: "fetchPatientsPage env k u (Suc j) 5 ?tr = (Inr v, ?tr @ [Fetch (page_request k u (Suc j) 5)])"
       "data v = records_of (d j)"
    by blast
  have ih: "fetchAllPatients_loop env k u (int N) (Suc (Suc j)) acc'
              (?tr @ [Fetch (page_request k u (Suc j) 5)]) =
           (Inr (acc' @ concat (map (\<lambda>i. records_of (d i)) [Suc j..<N])),
            (?tr @ [Fetch (page_request k u (Suc j) 5)])
              @ concat (map (\<lambda>i. [Sleep 500, Fetch (page_request k u (Suc i) 5)]) [Suc j..<N]))"
    for acc'
    using Suc.hyps(2) Suc.prems j by (intro Suc.hyps(1)) auto
  have step: "fetchAllPatients_loop env k u (int N) (Suc j) acc tr =
              fetchAllPatients_loop env k u (int N) (Suc (Suc j)) (acc @ data v)
                (tr @ [Sleep 500, Fetch (page_request k u (Suc j) 5)])"
    using j v(1)
    by (subst fetchAllPatients_loop.simps) (simp add: sleep_def RATE_LIMIT_DELAY_def)
  show ?case
    unfolding step using ih[of "acc @ data v"] by (simp add: v(2) upt_from[OF j])
qed

lemma all_pages_run:
  assumes "1 \<le> N"
    and "\<forall>i<N. respond env (length (fetches tr) + i) (page_request k u (Suc i) 5) = Response (r i)
               \<and> ok (r i) \<and> json (r i) = Inr (Object (d i) (pg i) (md i))"
    and "totalPages_or_1 (pg 0) = int N"
  shows "fetchAllPatients env k u tr =
           (Inr (concat (map (\<lambda>i. records_of (d i)) [0..<N])),
            tr @ Fetch (page_request k u 1 5)
               # concat (map (\<lambda>i. [Sleep 500, Fetch (page_request k u (Suc i) 5)]) [1..<N]))"
proof -
  have N: "0 < N" using assms(1) by simp
  have "respond env (length (fetches tr)) (page_request k u 1 5) = Response (r 0)"
    "ok (r 0)" "json (r 0) = Inr (Object (d 0) (pg 0) (md 0))"
    using assms(2) N by auto
  from page_fetch_object[OF this] obtain v where
    v: "fetchPatientsPage env k u 1 5 tr = (Inr v, tr @ [Fetch (page_request k u 1 5)])"
       "data v = records_of (d 0)" "totalPages_or_1 (pagination v) = totalPages_or_1 (pg 0)"
    by blast
  have l: "fetchAllPatients_loop env k u (int N) (Suc 1) (records_of (d 0))
             (tr @ [Fetch (page_request k u 1 5)]) =
           (Inr (records_of (d 0) @ concat (map (\<lambda>i. records_of (d i)) [1..<N])),
            (tr @ [Fetch (page_request k u 1 5)])
              @ concat (map (\<lambda>i. [Sleep 500, Fetch (page_request k u (Suc i) 5)]) [1..<N]))"
    using assms(1,2) by (intro all_pages_loop[where n = "length (fetches tr)"]) auto
  have step: "fetchAllPatients env k u tr =
              fetchAllPatients_loop env k u (int N) (Suc 1) (data v)
                (tr @ [Fetch (page_request k u 1 5)])"
    using v(1) v(3) assms(3) by (simp add: fetchAllPatients_def Let_def numeral_2_eq_2)
  show ?thesis
    unfolding step using l by (simp add: v(2) upt_from[OF N])
qed

lemma fetches_pages:
  "fetches (concat (map (\<lambda>i. [Sleep d, Fetch (f i)]) xs)) = map f xs"
  by (induction xs) simp_all

lemma backoff_not_courtesy:
  "getExponentialBackoff a BASE_DELAY \<noteq> RATE_LIMIT_DELAY"
  "getExponentialBackoff a (BASE_DELAY * 2) \<noteq> RATE_LIMIT_DELAY"
proof -
  have "(1::nat) \<le> 2 ^ a" by simp
  then have "1000 * (1::nat) \<le> 1000 * 2 ^ a" "2000 * (1::nat) \<le> 2000 * 2 ^ a"
    by (simp_all only: mult_le_mono2)
  then show "getExponentialBackoff a BASE_DELAY \<noteq> RATE_LIMIT_DELAY"
    "getExponentialBackoff a (BASE_DELAY * 2) \<noteq> RATE_LIMIT_DELAY"
    by (simp_all add: getExponentialBackoff_def BASE_DELAY_def RATE_LIMIT_DELAY_def)
qed

lemma page_loop_no_data:
  assumes "attempt < 5"
    and "respond env (length (fetches tr)) (page_request k u p l) = Response r"
    and "ok r" and "json r = Inr (Object None pg md)"
  shows "fetchPatientsPage_loop env k u p l attempt le tr =
     (Inr \<lparr>data = [],
           pagination =
             (case pg of
                Some q \<Rightarrow> Some q
              | None \<Rightarrow>
                  Some \<lparr>page = int p, limit = int l, total = 0, totalPages = 1,
                        hasNext = False, hasPrevious = False\<rparr>),
           metadata =
             (case md of
                Some m \<Rightarrow> Some m
              | None \<Rightarrow>
                  Some \<lparr>timestamp = now env, version = ''v1.0'', requestId = ''unknown''\<rparr>)\<rparr>,
      tr @ [Fetch (page_request k u p l)])"
  unfolding page_loop_step[OF assms(1)] assms(2) page_try_no_data[OF assms(3,4)]
  by simp

text \<open>The decimal rendering tells numbers apart, and so does the URL of a page request.\<close>

lemma decimal_digit: "n < 10 \<Longrightarrow> decimal n = [char_of (n + 48)]"
  by (subst decimal.simps) simp

lemma decimal_more:
  "\<not> n < 10 \<Longrightarrow> decimal n = decimal (n div 10) @ [char_of (n mod 10 + 48)]"
  by (subst decimal.simps) simp

lemma decimal_not_Nil: "decimal n \<noteq> []"
  by (cases "n < 10") (simp_all add: decimal_digit decimal_more)

lemma digit_char_inj:
  assumes "a < 10" "b < 10" "char_of (a + 48) = char_of (b + 48)"
  shows "a = (b::nat)"
proof -
  have "(of_char (char_of (a + 48)) :: nat) = of_char (char_of (b + 48))"
    using assms(3) by simp
  then have "(a + 48) mod 256 = (b + 48) mod 256"
    by (simp only: of_char_of)
  then show ?thesis using assms(1,2) by simp
qed

lemma decimal_inj: "decimal m = decimal n \<Longrightarrow> m = n"
proof (induction m arbitrary: n rule: less_induct)
  case (less m)
  show ?case
  proof (cases "m < 10")
    case m: True
    show ?thesis
    proof (cases "n < 10")
      case True
      then show ?thesis
        using less.prems m by (simp add: decimal_digit digit_char_inj)
    next
      case False
      then show ?thesis
        using less.prems m decimal_not_Nil[of "n div 10"]
        by (simp add: decimal_digit decimal_more append_eq_Cons_conv)
    qed
  next
    case m: False
    show ?thesis
    proof (cases "n < 10")
      case True
      then show ?thesis
        using less.prems m decimal_not_Nil[of "m div 10"]
        by (simp add: decimal_digit decimal_more Cons_eq_append_conv)
    next
      case False
      from less.prems m False have e: "decimal (m div 10) = decimal (n div 10)"
        and c: "char_of (m mod 10 + 48) = char_of (n mod 10 + 48)"
        by (simp_all add: decimal_more)
      have "m div 10 < m" using m by simp
      from less.IH[OF this e] have d: "m div 10 = n div 10" .
      have "m mod 10 = n mod 10"
        using c by (intro digit_char_inj) simp_all
      with d show ?thesis by (metis div_mult_mod_eq)
    qed
  qed
qed

lemma page_url_inj:
  "url (page_request k u p l) = url (page_request k u q l) \<Longrightarrow> p = q"
  by (simp add: page_request_def decimal_inj)

lemma decimal_small:
  "decimal 1 = ''1''" "decimal 2 = ''2''" "decimal 3 = ''3''" "decimal 5 = ''5''"
  "decimal 12 = ''12''" "decimal (Suc (Suc 0)) = ''2''"
  by code_simp+

section \<open>Claims about the API client\<close>

text \<open>
  C8: the backoff delay is the base delay times 2 to the (zero-indexed) attempt; both
  callers take the base 2000 ms when the status is 429 and 1000 ms for the other
  retryable statuses, and 1000 ms after an attempt that has thrown; a page request
  answered 429 three times and then by a well-formed 200 succeeds after waits of 2000,
  4000 and 8000 ms; a call issues at most 5 requests.
\<close>

theorem backoff_schedule:
  "getExponentialBackoff attempt baseDelay = baseDelay * 2 ^ attempt
   \<and> (isRetryableError (status r)
        \<longrightarrow> fetchPatientsPage_try nowISO p l attempt (Response r) =
              Continue (getExponentialBackoff attempt (if status r = 429 then 2000 else 1000)))
   \<and> (isRetryableError (status r')
        \<longrightarrow> submitAssessment_try attempt (Response r') =
              Continue (getExponentialBackoff attempt (if status r' = 429 then 2000 else 1000)))
   \<and> (attempt < 4
        \<and> fetchPatientsPage_try (now env) p l attempt
             (respond env (length (fetches tr)) (page_request k u p l)) = Thrown e
        \<longrightarrow> fetchPatientsPage_loop env k u p l attempt le tr =
              fetchPatientsPage_loop env k u p l (attempt + 1) (Some e)
                (tr @ [Fetch (page_request k u p l),
                       Sleep (getExponentialBackoff attempt 1000)]))
   \<and> (attempt < 4
        \<and> submitAssessment_try attempt
             (respond env' (length (fetches tr)) (submit_request k u rs)) = Thrown e
        \<longrightarrow> submitAssessment_loop env' k u rs attempt le' tr =
              submitAssessment_loop env' k u rs (attempt + 1) (Some e)
                (tr @ [Fetch (submit_request k u rs),
                       Sleep (getExponentialBackoff attempt 1000)]))
   \<and> (respond env (length (fetches tr)) (page_request k u p l) = Response r1 \<and> status r1 = 429
        \<and> respond env (length (fetches tr) + 1) (page_request k u p l) = Response r2
        \<and> status r2 = 429
        \<and> respond env (length (fetches tr) + 2) (page_request k u p l) = Response r3
        \<and> status r3 = 429
        \<and> respond env (length (fetches tr) + 3) (page_request k u p l) = Response r4
        \<and> status r4 = 200 \<and> json r4 = Inr (Object (Some ps) pg md)
       \<longrightarrow> fetchPatientsPage env k u p l tr =
             (Inr \<lparr>data = ps, pagination = pg, metadata = md\<rparr>,
              tr @ [Fetch (page_request k u p l), Sleep 2000,
                    Fetch (page_request k u p l), Sleep 4000,
                    Fetch (page_request k u p l), Sleep 8000,
                    Fetch (page_request k u p l)])
           \<and> sum_list (sleeps (snd (fetchPatientsPage env k u p l tr)))
             = sum_list (sleeps tr) + 2 * (1000 + 2000 + 4000))
   \<and> length (fetches (snd (fetchPatientsPage env k u p l tr))) \<le> length (fetches tr) + 5
   \<and> length (fetches (snd (submitAssessment env' k u rs tr))) \<le> length (fetches tr) + 5"
proof -
  have s: "fetchPatientsPage env k u p l tr =
             (Inr \<lparr>data = ps, pagination = pg, metadata = md\<rparr>,
              tr @ [Fetch (page_request k u p l), Sleep 2000,
                    Fetch (page_request k u p l), Sleep 4000,
                    Fetch (page_request k u p l), Sleep 8000,
                    Fetch (page_request k u p l)])"
    if h: "respond env (length (fetches tr)) (page_request k u p l) = Response r1"
      "status r1 = 429"
      "respond env (length (fetches tr) + 1) (page_request k u p l) = Response r2"
      "status r2 = 429"
      "respond env (length (fetches tr) + 2) (page_request k u p l) = Response r3"
      "status r3 = 429"
      "respond env (length (fetches tr) + 3) (page_request k u p l) = Response r4"
      "status r4 = 200" "json r4 = Inr (Object (Some ps) pg md)"
  proof -
    have o: "ok r4" using h(8) by (simp add: ok_def)
    have q: "isRetryableError (status r1)" "isRetryableError (status r2)"
      "isRetryableError (status r3)"
      using h by (simp_all add: isRetryableError_def)
    have h2: "respond env (Suc (length (fetches tr))) (page_request k u p l) = Response r2"
      using h(3) by simp
    have h3: "respond env (Suc (Suc (length (fetches tr)))) (page_request k u p l) = Response r3"
      using h(5) by (simp add: numeral_2_eq_2)
    have h4: "respond env (Suc (Suc (Suc (length (fetches tr))))) (page_request k u p l)
                = Response r4"
      using h(7) by (simp add: numeral_3_eq_3)
    show ?thesis
      using q h(2,4,6)
      by (simp add: fetchPatientsPage_def page_loop_step h(1) h2 h3 h4 page_try_retryable
            page_try_well_formed[OF o h(9)] getExponentialBackoff_def)
  qed
  have b1: "length (fetches (snd (fetchPatientsPage env k u p l tr))) \<le> length (fetches tr) + 5"
    using page_loop_fetches[of 0 env k u p l None tr] by (simp add: fetchPatientsPage_def)
  have b2: "length (fetches (snd (submitAssessment env' k u rs tr))) \<le> length (fetches tr) + 5"
    using submit_loop_fetches[of 0 env' k u rs None tr] by (simp add: submitAssessment_def)
  have c1: "fetchPatientsPage_loop env k u p l attempt le tr =
              fetchPatientsPage_loop env k u p l (attempt + 1) (Some e)
                (tr @ [Fetch (page_request k u p l),
                       Sleep (getExponentialBackoff attempt 1000)])"
    if "attempt < 4"
      "fetchPatientsPage_try (now env) p l attempt
         (respond env (length (fetches tr)) (page_request k u p l)) = Thrown e"
  proof -
    have a5: "attempt < 5" using that(1) by simp
    show ?thesis
      unfolding page_loop_step[OF a5, where env = env and k = k and u = u and p = p and l = l
          and le = le and tr = tr] that(2)
      using that(1) by (simp add: getExponentialBackoff_def)
  qed
  have c2: "submitAssessment_loop env' k u rs attempt le' tr =
              submitAssessment_loop env' k u rs (attempt + 1) (Some e)
                (tr @ [Fetch (submit_request k u rs),
                       Sleep (getExponentialBackoff attempt 1000)])"
    if "attempt < 4"
      "submitAssessment_try attempt
         (respond env' (length (fetches tr)) (submit_request k u rs)) = Thrown e"
  proof -
    have a5: "attempt < 5" using that(1) by simp
    show ?thesis
      unfolding submit_loop_step[OF a5, where env = env' and k = k and u = u and rs = rs
          and le = le' and tr = tr] that(2)
      using that(1) by (simp add: getExponentialBackoff_def)
  qed
  have d: "getExponentialBackoff attempt baseDelay = baseDelay * 2 ^ attempt"
    by (simp add: getExponentialBackoff_def)
  have t: "sum_list (sleeps (tr @ [Fetch (page_request k u p l), Sleep 2000,
                    Fetch (page_request k u p l), Sleep 4000,
                    Fetch (page_request k u p l), Sleep 8000,
                    Fetch (page_request k u p l)]))
             = sum_list (sleeps tr) + 2 * (1000 + 2000 + 4000)"
    by simp
  show ?thesis
    using s b1 b2 c1 c2 d t
      page_try_retryable[where r = r and attempt = attempt and nowISO = nowISO and p = p and l = l]
      submit_try_retryable[where r = r' and attempt = attempt]
    by (metis (no_types, lifting) snd_conv)
qed

theorem backoff_schedule_witness:
  "fetchPatientsPage
     (scripted [status_only 429 ''Too Many Requests'', status_only 429 ''Too Many Requests'',
                status_only 429 ''Too Many Requests''] (ok_json (Object (Some []) None None)))
     ''key'' ''https://api'' 1 5 []
   = (Inr \<lparr>data = [], pagination = None, metadata = None\<rparr>,
      [Fetch (page_request ''key'' ''https://api'' 1 5), Sleep 2000,
       Fetch (page_request ''key'' ''https://api'' 1 5), Sleep 4000,
       Fetch (page_request ''key'' ''https://api'' 1 5), Sleep 8000,
       Fetch (page_request ''key'' ''https://api'' 1 5)])
   \<and> isRetryableError 503
   \<and> fetchPatientsPage_try ''t'' 1 5 2
        (Response \<lparr>status = 503, statusText = ''Service Unavailable'', bodyText = '''',
                   json = Inl ''Unexpected end of JSON input''\<rparr>) = Continue 4000
   \<and> (submitAssessment_try 2
        (Response \<lparr>status = 429, statusText = ''Too Many Requests'', bodyText = '''',
                   json = Inl ''Unexpected end of JSON input''\<rparr>) :: unit attempt) = Continue 8000"
proof -
  let ?env = "scripted [status_only 429 ''Too Many Requests'',
                status_only 429 ''Too Many Requests'',
                status_only 429 ''Too Many Requests''] (ok_json (Object (Some []) None None))"
  let ?r = "\<lparr>status = 429, statusText = ''Too Many Requests'', bodyText = '''',
                   json = Inl ''Unexpected end of JSON input''\<rparr> :: page_json response"
  let ?r4 = "\<lparr>status = 200, statusText = ''OK'', bodyText = ''{}'',
             json = Inr (Object (Some []) None None)\<rparr> :: page_json response"
  let ?r5 = "\<lparr>status = 503, statusText = ''Service Unavailable'', bodyText = '''',
                   json = Inl ''Unexpected end of JSON input''\<rparr> :: page_json response"
  let ?r6 = "\<lparr>status = 429, statusText = ''Too Many Requests'', bodyText = '''',
                   json = Inl ''Unexpected end of JSON input''\<rparr> :: unit response"
  have h: "respond ?env (length (fetches [])) (page_request ''key'' ''https://api'' 1 5) = Response ?r"
    "respond ?env (length (fetches []) + 1) (page_request ''key'' ''https://api'' 1 5) = Response ?r"
    "respond ?env (length (fetches []) + 2) (page_request ''key'' ''https://api'' 1 5) = Response ?r"
    "respond ?env (length (fetches []) + 3) (page_request ''key'' ''https://api'' 1 5) = Response ?r4"
    by (simp_all add: scripted_def status_only_def ok_json_def)
  have i: "isRetryableError (status ?r5)" "isRetryableError (status ?r6)"
    by (simp_all add: isRetryableError_def)
  have s: "status ?r = 429" "status ?r4 = 200" "json ?r4 = Inr (Object (Some []) None None)"
    by simp_all
  note th = backoff_schedule[where env = ?env and tr = "[]" and k = "''key''"
      and u = "''https://api''" and p = 1 and l = 5 and ?r1.0 = ?r and ?r2.0 = ?r
      and ?r3.0 = ?r and ?r4.0 = ?r4 and ps = "[]" and pg = None and md = None and r = ?r5
      and r' = ?r6 and attempt = 2 and nowISO = "''t''"]
  from th h s have g1: "fetchPatientsPage ?env ''key'' ''https://api'' 1 5 [] =
     (Inr \<lparr>data = [], pagination = None, metadata = None\<rparr>,
      [] @ [Fetch (page_request ''key'' ''https://api'' 1 5), Sleep 2000,
       Fetch (page_request ''key'' ''https://api'' 1 5), Sleep 4000,
       Fetch (page_request ''key'' ''https://api'' 1 5), Sleep 8000,
       Fetch (page_request ''key'' ''https://api'' 1 5)])"
    by blast
  from th i have g2: "fetchPatientsPage_try ''t'' 1 5 2 (Response ?r5) =
      Continue (getExponentialBackoff 2 (if status ?r5 = 429 then 2000 else 1000))"
    by blast
  from th i have g3: "submitAssessment_try 2 (Response ?r6) =
      Continue (getExponentialBackoff 2 (if status ?r6 = 429 then 2000 else 1000))"
    by blast
  have g4: "isRetryableError 503" by (simp add: isRetryableError_def)
  show ?thesis
    unfolding g1 g2 g3 using g4 by (simp add: getExponentialBackoff_def)
qed

text \<open>
  C3, as the code has it: when all five attempts of a page fetch or of a submission see a retryable
  status, the call issues exactly five requests, sleeps the backoff delay after each of
  them, and then fails with a fixed message that names only the page (or the
  submission) and the number of attempts, not the status observed.
\<close>

theorem retries_exhausted:
  "((\<forall>i<5. respond env (length (fetches tr) + i) (page_request k u p l) = Response (r i)
            \<and> isRetryableError (status (r i)))
     \<longrightarrow> fetchPatientsPage env k u p l tr =
           (Inl (Error (''Failed to fetch page '' @ decimal p @ '' after 5 attempts'')),
            tr @ concat (map (\<lambda>i. [Fetch (page_request k u p l),
                                    Sleep (getExponentialBackoff i
                                             (if status (r i) = 429 then 2000 else 1000))])
                          [0..<5])))
   \<and> ((\<forall>i<5. respond env' (length (fetches tr) + i) (submit_request k u rs) = Response (r' i)
            \<and> isRetryableError (status (r' i)))
     \<longrightarrow> submitAssessment env' k u rs tr =
           (Inl (Error ''Failed to submit assessment after 5 attempts''),
            tr @ concat (map (\<lambda>i. [Fetch (submit_request k u rs),
                                    Sleep (getExponentialBackoff i
                                             (if status (r' i) = 429 then 2000 else 1000))])
                          [0..<5])))"
  using page_all_retryable[of env tr k u p l r] submit_all_retryable[of env' tr k u rs r']
  by blast

theorem retries_exhausted_witness:
  "fetchPatientsPage (scripted [] (status_only 503 ''Service Unavailable''))
     ''key'' ''https://api'' 1 5 []
   = (Inl (Error ''Failed to fetch page 1 after 5 attempts''),
      [Fetch (page_request ''key'' ''https://api'' 1 5), Sleep 1000,
       Fetch (page_request ''key'' ''https://api'' 1 5), Sleep 2000,
       Fetch (page_request ''key'' ''https://api'' 1 5), Sleep 4000,
       Fetch (page_request ''key'' ''https://api'' 1 5), Sleep 8000,
       Fetch (page_request ''key'' ''https://api'' 1 5), Sleep 16000])
   \<and> (submitAssessment (scripted [] (status_only 429 ''Too Many Requests''))
        ''key'' ''https://api''
        \<lparr>high_risk_patients = [''P1''], fever_patients = [], data_quality_issues = []\<rparr> []
        :: (error + unit) \<times> event list)
     = (Inl (Error ''Failed to submit assessment after 5 attempts''),
        [Fetch (submit_request ''key'' ''https://api''
                 \<lparr>high_risk_patients = [''P1''], fever_patients = [], data_quality_issues = []\<rparr>),
         Sleep 2000,
         Fetch (submit_request ''key'' ''https://api''
                 \<lparr>high_risk_patients = [''P1''], fever_patients = [], data_quality_issues = []\<rparr>),
         Sleep 4000,
         Fetch (submit_request ''key'' ''https://api''
                 \<lparr>high_risk_patients = [''P1''], fever_patients = [], data_quality_issues = []\<rparr>),
         Sleep 8000,
         Fetch (submit_request ''key'' ''https://api''
                 \<lparr>high_risk_patients = [''P1''], fever_patients = [], data_quality_issues = []\<rparr>),
         Sleep 16000,
         Fetch (submit_request ''key'' ''https://api''
                 \<lparr>high_risk_patients = [''P1''], fever_patients = [], data_quality_issues = []\<rparr>),
         Sleep 32000])"
proof -
  let ?r = "\<lambda>i::nat. \<lparr>status = 503, statusText = ''Service Unavailable'', bodyText = '''',
               json = Inl ''Unexpected end of JSON input''\<rparr> :: page_json response"
  let ?r' = "\<lambda>i::nat. \<lparr>status = 429, statusText = ''Too Many Requests'', bodyText = '''',
               json = Inl ''Unexpected end of JSON input''\<rparr> :: unit response"
  let ?rs = "\<lparr>high_risk_patients = [''P1''], fever_patients = [], data_quality_issues = []\<rparr>"
  have h1: "\<forall>i<5. respond (scripted [] (status_only 503 ''Service Unavailable''))
               (length (fetches []) + i) (page_request ''key'' ''https://api'' 1 5)
               = Response (?r i) \<and> isRetryableError (status (?r i))"
    by (simp add: status_only_def isRetryableError_def)
  have h2: "\<forall>i<5. respond (scripted [] (status_only 429 ''Too Many Requests''))
               (length (fetches []) + i) (submit_request ''key'' ''https://api'' ?rs)
               = Response (?r' i) \<and> isRetryableError (status (?r' i))"
    by (simp add: status_only_def isRetryableError_def)
  note th = retries_exhausted[where env = "scripted [] (status_only 503 ''Service Unavailable'')"
      and env' = "scripted [] (status_only 429 ''Too Many Requests'')"
      and tr = "[]" and k = "''key''" and u = "''https://api''" and p = 1 and l = 5
      and rs = ?rs and r = ?r and r' = ?r']
  note g1 = th[THEN conjunct1, THEN mp, OF h1]
  note g2 = th[THEN conjunct2, THEN mp, OF h2]
  show ?thesis
    unfolding g1 g2 by (simp add: upt_5 getExponentialBackoff_def)
qed

theorem retries_exhausted_counterexample:
  "fst (fetchPatientsPage (scripted [] (status_only 503 ''Service Unavailable''))
          ''key'' ''https://api'' 1 5 [])
     = Inl (Error ''Failed to fetch page 1 after 5 attempts'')
   \<and> fst (fetchPatientsPage (scripted [] (status_only 429 ''Too Many Requests''))
          ''key'' ''https://api'' 1 5 [])
     = Inl (Error ''Failed to fetch page 1 after 5 attempts'')
   \<and> fst (submitAssessment (scripted [] (status_only 500 ''Internal Server Error''))
          ''key'' ''https://api''
          \<lparr>high_risk_patients = [], fever_patients = [], data_quality_issues = []\<rparr> []
          :: (error + unit) \<times> event list)
     = Inl (Error ''Failed to submit assessment after 5 attempts'')"
proof -
  have a: "fst (fetchPatientsPage (scripted [] (status_only s t)) ''key'' ''https://api'' 1 5 [])
     = Inl (Error ''Failed to fetch page 1 after 5 attempts'')" if "isRetryableError s" for s t
    using that
    by (subst page_all_retryable[where r = "\<lambda>i. \<lparr>status = s, statusText = t, bodyText = '''',
               json = Inl ''Unexpected end of JSON input''\<rparr>"])
       (simp_all add: status_only_def decimal_1)
  have b: "fst (submitAssessment (scripted [] (status_only s t)) ''key'' ''https://api''
          \<lparr>high_risk_patients = [], fever_patients = [], data_quality_issues = []\<rparr> []
          :: (error + unit) \<times> event list)
     = Inl (Error ''Failed to submit assessment after 5 attempts'')" if "isRetryableError s" for s t
    using that
    by (subst submit_all_retryable[where r = "\<lambda>i. \<lparr>status = s, statusText = t, bodyText = '''',
               json = Inl ''Unexpected end of JSON input''\<rparr>"])
       (simp_all add: status_only_def)
  show ?thesis
    using a[of 503] a[of 429] b[of 500] by (simp add: isRetryableError_def)
qed

text \<open>
  C2: a status that is neither a success nor 429, 500 or 503, and a success whose body
  is not JSON, do not end the call at once. The error is thrown inside the \<open>try\<close> block
  and caught by the \<open>catch\<close> block of the same loop, which sleeps and tries again: a page
  request answered 404 and then 200 returns the page after a sleep of 1000 ms, a
  submission answered by a body that is not JSON, then 403, then 200 returns the result
  after sleeps of 1000 and 2000 ms, and a server that always answers 404 (or always a
  body that is not JSON) receives five requests before the call fails.
\<close>

theorem non_retryable_status_is_retried:
  "fetchPatientsPage
     (scripted [status_only 404 ''Not Found''] (ok_json (Object (Some []) None None)))
     ''key'' ''https://api'' 1 5 []
   = (Inr \<lparr>data = [], pagination = None, metadata = None\<rparr>,
      [Fetch (page_request ''key'' ''https://api'' 1 5), Sleep 1000,
       Fetch (page_request ''key'' ''https://api'' 1 5)])
   \<and> submitAssessment
       (scripted [Response \<lparr>status = 200, statusText = ''OK'', bodyText = ''<html>'',
                             json = Inl ''Unexpected token <''\<rparr>,
                  status_only 403 ''Forbidden''] (ok_json ()))
       ''key'' ''https://api''
       \<lparr>high_risk_patients = [], fever_patients = [], data_quality_issues = []\<rparr> []
     = (Inr (),
        [Fetch (submit_request ''key'' ''https://api''
                  \<lparr>high_risk_patients = [], fever_patients = [], data_quality_issues = []\<rparr>),
         Sleep 1000,
         Fetch (submit_request ''key'' ''https://api''
                  \<lparr>high_risk_patients = [], fever_patients = [], data_quality_issues = []\<rparr>),
         Sleep 2000,
         Fetch (submit_request ''key'' ''https://api''
                  \<lparr>high_risk_patients = [], fever_patients = [], data_quality_issues = []\<rparr>)])
   \<and> fst (fetchPatientsPage
            (scripted []
               (Response \<lparr>status = 404, statusText = ''Not Found'',
                          bodyText = ''patient index offline'',
                          json = Inl ''Unexpected token p''\<rparr>))
            ''key'' ''https://api'' 1 5 [])
     = Inl (Error ''HTTP 404: Not Found'')
   \<and> length (fetches (snd (fetchPatientsPage
            (scripted []
               (Response \<lparr>status = 404, statusText = ''Not Found'',
                          bodyText = ''patient index offline'',
                          json = Inl ''Unexpected token p''\<rparr>))
            ''key'' ''https://api'' 1 5 []))) = 5
   \<and> fst (fetchPatientsPage
            (scripted []
               (Response \<lparr>status = 200, statusText = ''OK'', bodyText = ''<html>'',
                          json = Inl ''Unexpected token <''\<rparr>))
            ''key'' ''https://api'' 1 5 [])
     = Inl (Error ''Unexpected token <'')
   \<and> length (fetches (snd (fetchPatientsPage
            (scripted []
               (Response \<lparr>status = 200, statusText = ''OK'', bodyText = ''<html>'',
                          json = Inl ''Unexpected token <''\<rparr>))
            ''key'' ''https://api'' 1 5 []))) = 5"
proof -
  have five: "(0::nat) < 5" "Suc 0 < 5" "Suc (Suc 0) < 5" by simp_all
  have a: "fetchPatientsPage
     (scripted [status_only 404 ''Not Found''] (ok_json (Object (Some []) None None)))
     ''key'' ''https://api'' 1 5 []
   = (Inr \<lparr>data = [], pagination = None, metadata = None\<rparr>,
      [Fetch (page_request ''key'' ''https://api'' 1 5), Sleep 1000,
       Fetch (page_request ''key'' ''https://api'' 1 5)])"
    unfolding fetchPatientsPage_def
    by (simp add: page_loop_step[OF five(1)] page_loop_step[OF five(2)] scripted_def
          status_only_def ok_json_def fetchPatientsPage_try_def isRetryableError_def ok_def)
  have b: "submitAssessment
       (scripted [Response \<lparr>status = 200, statusText = ''OK'', bodyText = ''<html>'',
                             json = Inl ''Unexpected token <''\<rparr>,
                  status_only 403 ''Forbidden''] (ok_json ()))
       ''key'' ''https://api''
       \<lparr>high_risk_patients = [], fever_patients = [], data_quality_issues = []\<rparr> []
     = (Inr (),
        [Fetch (submit_request ''key'' ''https://api''
                  \<lparr>high_risk_patients = [], fever_patients = [], data_quality_issues = []\<rparr>),
         Sleep 1000,
         Fetch (submit_request ''key'' ''https://api''
                  \<lparr>high_risk_patients = [], fever_patients = [], data_quality_issues = []\<rparr>),
         Sleep 2000,
         Fetch (submit_request ''key'' ''https://api''
                  \<lparr>high_risk_patients = [], fever_patients = [], data_quality_issues = []\<rparr>)])"
    unfolding submitAssessment_def
    by (simp add: submit_loop_step[OF five(1)] submit_loop_step[OF five(2)]
          submit_loop_step[OF five(3)] scripted_def
          status_only_def ok_json_def submitAssessment_try_def isRetryableError_def ok_def)
  have t1: "fetchPatientsPage_try nowISO p l i
              (Response \<lparr>status = 404, statusText = ''Not Found'',
                         bodyText = ''patient index offline'',
                         json = Inl ''Unexpected token p''\<rparr>)
            = Thrown (Error ''HTTP 404: Not Found'')" for nowISO p l i
    by (simp add: fetchPatientsPage_try_def isRetryableError_def ok_def decimal_404)
  have t2: "fetchPatientsPage_try nowISO p l i
              (Response \<lparr>status = 200, statusText = ''OK'', bodyText = ''<html>'',
                         json = Inl ''Unexpected token <''\<rparr>)
            = Thrown (Error ''Unexpected token <'')" for nowISO p l i
    by (simp add: fetchPatientsPage_try_def isRetryableError_def ok_def)
  have c: "fst (fetchPatientsPage
            (scripted []
               (Response \<lparr>status = 404, statusText = ''Not Found'',
                          bodyText = ''patient index offline'',
                          json = Inl ''Unexpected token p''\<rparr>))
            ''key'' ''https://api'' 1 5 [])
     = Inl (Error ''HTTP 404: Not Found'')
   \<and> length (fetches (snd (fetchPatientsPage
            (scripted []
               (Response \<lparr>status = 404, statusText = ''Not Found'',
                          bodyText = ''patient index offline'',
                          json = Inl ''Unexpected token p''\<rparr>))
            ''key'' ''https://api'' 1 5 []))) = 0 + 5"
    unfolding fetchPatientsPage_def
    by (rule page_loop_fifth_throws[where n = 0 and a = 0])
       (simp_all add: t1)
  have d: "fst (fetchPatientsPage
            (scripted []
               (Response \<lparr>status = 200, statusText = ''OK'', bodyText = ''<html>'',
                          json = Inl ''Unexpected token <''\<rparr>))
            ''key'' ''https://api'' 1 5 [])
     = Inl (Error ''Unexpected token <'')
   \<and> length (fetches (snd (fetchPatientsPage
            (scripted []
               (Response \<lparr>status = 200, statusText = ''OK'', bodyText = ''<html>'',
                          json = Inl ''Unexpected token <''\<rparr>))
            ''key'' ''https://api'' 1 5 []))) = 0 + 5"
    unfolding fetchPatientsPage_def
    by (rule page_loop_fifth_throws[where n = 0 and a = 0])
       (simp_all add: t2)
  show ?thesis using a b c d by simp
qed

text \<open>
  C6: when the first page declares \<open>totalPages = N\<close> with \<open>N \<ge> 1\<close> and every page request is
  answered at once by a success with a well-formed body, \<open>fetchAllPatients\<close> requests the
  pages 1 to \<open>N\<close> in this order and nothing else, sleeps the fixed 500 ms before each page
  after the first (no backoff delay equals it), and returns the records of all pages in
  page order. The request for page \<open>q\<close> is the GET of \<open><baseUrl>/patients?page=q&limit=5\<close>
  with the API key in its header, and different pages have different URLs.
\<close>

theorem fetchAllPatients_all_pages:
  "(1 \<le> N
    \<and> (\<forall>i<N. respond env (length (fetches tr) + i) (page_request k u (Suc i) 5) = Response (r i)
              \<and> ok (r i) \<and> json (r i) = Inr (Object (Some (pages i)) (pg i) (md i)))
    \<and> pg 0 = Some p0 \<and> totalPages p0 = int N
    \<longrightarrow> fetchAllPatients env k u tr =
          (Inr (concat (map pages [0..<N])),
           tr @ Fetch (page_request k u 1 5)
              # concat (map (\<lambda>i. [Sleep RATE_LIMIT_DELAY, Fetch (page_request k u (Suc i) 5)])
                         [1..<N]))
        \<and> fetches (snd (fetchAllPatients env k u tr)) =
            fetches tr @ map (\<lambda>i. page_request k u (Suc i) 5) [0..<N]
        \<and> fetches (snd (fetchAllPatients env k u tr)) =
            fetches tr
            @ map (\<lambda>i. \<lparr>http_method = ''GET'',
                          url = u @ ''/patients?page='' @ decimal (Suc i) @ ''&limit=5'',
                          headers = [(''x-api-key'', k)],
                          body = None\<rparr>)
                [0..<N])
   \<and> RATE_LIMIT_DELAY = 500
   \<and> getExponentialBackoff a BASE_DELAY \<noteq> RATE_LIMIT_DELAY
   \<and> getExponentialBackoff a (BASE_DELAY * 2) \<noteq> RATE_LIMIT_DELAY
   \<and> page_request k u q l =
       \<lparr>http_method = ''GET'',
        url = u @ ''/patients?page='' @ decimal q @ ''&limit='' @ decimal l,
        headers = [(''x-api-key'', k)],
        body = None\<rparr>
   \<and> (url (page_request k u q l) = url (page_request k u q' l) \<longrightarrow> q = q')
   \<and> (decimal q = decimal q' \<longrightarrow> q = q')"
proof -
  have run: "fetchAllPatients env k u tr =
          (Inr (concat (map pages [0..<N])),
           tr @ Fetch (page_request k u 1 5)
              # concat (map (\<lambda>i. [Sleep RATE_LIMIT_DELAY, Fetch (page_request k u (Suc i) 5)])
                         [1..<N]))
        \<and> fetches (snd (fetchAllPatients env k u tr)) =
            fetches tr @ map (\<lambda>i. page_request k u (Suc i) 5) [0..<N]
        \<and> fetches (snd (fetchAllPatients env k u tr)) =
            fetches tr
            @ map (\<lambda>i. \<lparr>http_method = ''GET'',
                          url = u @ ''/patients?page='' @ decimal (Suc i) @ ''&limit=5'',
                          headers = [(''x-api-key'', k)],
                          body = None\<rparr>)
                [0..<N]"
    if hyp: "1 \<le> N
    \<and> (\<forall>i<N. respond env (length (fetches tr) + i) (page_request k u (Suc i) 5) = Response (r i)
              \<and> ok (r i) \<and> json (r i) = Inr (Object (Some (pages i)) (pg i) (md i)))
    \<and> pg 0 = Some p0 \<and> totalPages p0 = int N"
  proof -
    from hyp have h: "1 \<le> N"
      "\<forall>i<N. respond env (length (fetches tr) + i) (page_request k u (Suc i) 5) = Response (r i)
              \<and> ok (r i) \<and> json (r i) = Inr (Object (Some (pages i)) (pg i) (md i))"
      "pg 0 = Some p0" "totalPages p0 = int N"
      by simp_all
    have c: "totalPages_or_1 (pg 0) = int N"
      using h(1,3,4) by (simp add: totalPages_or_1_def)
    have N: "0 < N" using h(1) by simp
    have e: "fetchAllPatients env k u tr =
           (Inr (concat (map (\<lambda>i. records_of (Some (pages i))) [0..<N])),
            tr @ Fetch (page_request k u 1 5)
               # concat (map (\<lambda>i. [Sleep 500, Fetch (page_request k u (Suc i) 5)]) [1..<N]))"
      using all_pages_run[where d = "\<lambda>i. Some (pages i)", OF h(1) h(2) c] .
    have f: "fetches (snd (fetchAllPatients env k u tr)) =
            fetches tr @ map (\<lambda>i. page_request k u (Suc i) 5) [0..<N]"
      unfolding e by (simp add: fetches_pages upt_from[OF N])
    have g: "fetches (snd (fetchAllPatients env k u tr)) =
            fetches tr
            @ map (\<lambda>i. \<lparr>http_method = ''GET'',
                          url = u @ ''/patients?page='' @ decimal (Suc i) @ ''&limit=5'',
                          headers = [(''x-api-key'', k)],
                          body = None\<rparr>)
                [0..<N]"
      unfolding f by (simp add: page_request_def decimal_small)
    have e': "fetchAllPatients env k u tr =
          (Inr (concat (map pages [0..<N])),
           tr @ Fetch (page_request k u 1 5)
              # concat (map (\<lambda>i. [Sleep RATE_LIMIT_DELAY, Fetch (page_request k u (Suc i) 5)])
                         [1..<N]))"
      using e by (simp add: records_of_def RATE_LIMIT_DELAY_def)
    show ?thesis
      by (intro conjI) (rule e' f g)+
  qed
  have c: "RATE_LIMIT_DELAY = 500" by (simp add: RATE_LIMIT_DELAY_def)
  have pr: "page_request k u q l =
       \<lparr>http_method = ''GET'',
        url = u @ ''/patients?page='' @ decimal q @ ''&limit='' @ decimal l,
        headers = [(''x-api-key'', k)],
        body = None\<rparr>"
    by (simp add: page_request_def)
  have ui: "url (page_request k u q l) = url (page_request k u q' l) \<longrightarrow> q = q'"
    using page_url_inj[of k u q l q'] by (rule impI)
  have di: "decimal q = decimal q' \<longrightarrow> q = q'"
    using decimal_inj[of q q'] by (rule impI)
  note r = impI[OF run]
  show ?thesis
    using r c backoff_not_courtesy[of a] pr ui di
    by - (intro conjI; assumption)
qed

theorem fetchAllPatients_all_pages_witness:
  "fetchAllPatients
     (scripted
        [ok_json (Object (Some [example_patient ''A'', example_patient ''B''])
                    (Some (example_pagination 1 2)) None),
         ok_json (Object (Some [example_patient ''C'']) (Some (example_pagination 2 2)) None)]
        (status_only 404 ''Not Found''))
     ''key'' ''https://api'' []
   = (Inr [example_patient ''A'', example_patient ''B'', example_patient ''C''],
      [Fetch (page_request ''key'' ''https://api'' 1 5), Sleep 500,
       Fetch (page_request ''key'' ''https://api'' 2 5)])
   \<and> fetches (snd (fetchAllPatients
        (scripted
           [ok_json (Object (Some [example_patient ''A'', example_patient ''B''])
                       (Some (example_pagination 1 2)) None),
            ok_json (Object (Some [example_patient ''C'']) (Some (example_pagination 2 2)) None)]
           (status_only 404 ''Not Found''))
        ''key'' ''https://api'' []))
     = [\<lparr>http_method = ''GET'', url = ''https://api/patients?page=1&limit=5'',
         headers = [(''x-api-key'', ''key'')], body = None\<rparr>,
        \<lparr>http_method = ''GET'', url = ''https://api/patients?page=2&limit=5'',
         headers = [(''x-api-key'', ''key'')], body = None\<rparr>]
   \<and> page_request ''key'' ''https://api'' 12 5
     = \<lparr>http_method = ''GET'', url = ''https://api/patients?page=12&limit=5'',
        headers = [(''x-api-key'', ''key'')], body = None\<rparr>
   \<and> url (page_request ''key'' ''https://api'' 1 5) \<noteq> url (page_request ''key'' ''https://api'' 2 5)"
proof -
  let ?b0 = "Object (Some [example_patient ''A'', example_patient ''B''])
                    (Some (example_pagination 1 2)) None"
  let ?b1 = "Object (Some [example_patient ''C'']) (Some (example_pagination 2 2)) None"
  let ?env = "scripted [ok_json ?b0, ok_json ?b1] (status_only 404 ''Not Found'')"
  let ?r = "\<lambda>i::nat. \<lparr>status = 200, statusText = ''OK'', bodyText = ''{}'',
                       json = Inr ([?b0, ?b1] ! i)\<rparr>"
  let ?pages = "\<lambda>i::nat. [[example_patient ''A'', example_patient ''B''], [example_patient ''C'']] ! i"
  let ?pg = "\<lambda>i::nat. [Some (example_pagination 1 2), Some (example_pagination 2 2)] ! i"
  let ?md = "\<lambda>i::nat. None :: Metadata option"
  have h: "\<forall>i<2. respond ?env (length (fetches []) + i) (page_request ''key'' ''https://api'' (Suc i) 5)
                  = Response (?r i)
              \<and> ok (?r i) \<and> json (?r i) = Inr (Object (Some (?pages i)) (?pg i) (?md i))"
    by (auto simp: less_2_cases_iff scripted_def ok_json_def ok_def)
  have p: "?pg 0 = Some (example_pagination 1 2)"
    "totalPages (example_pagination 1 2) = int 2"
    by (simp_all add: example_pagination_def)
  have n: "(1::nat) \<le> 2" by simp
  note run = fetchAllPatients_all_pages[where env = ?env and tr = "[]" and k = "''key''"
      and u = "''https://api''" and N = 2 and r = ?r and pages = ?pages and pg = ?pg
      and md = ?md and ?p0.0 = "example_pagination 1 2", THEN conjunct1, THEN mp,
      OF conjI, OF n, OF conjI, OF h, OF conjI, OF p]
  note th = run[THEN conjunct1]
  note urls = run[THEN conjunct2, THEN conjunct2]
  note pr = fetchAllPatients_all_pages[where k = "''key''" and u = "''https://api''"
      and q = 12 and l = 5,
      THEN conjunct2, THEN conjunct2, THEN conjunct2, THEN conjunct2, THEN conjunct1]
  note inj = fetchAllPatients_all_pages[where k = "''key''" and u = "''https://api''"
      and q = 1 and q' = 2 and l = 5,
      THEN conjunct2, THEN conjunct2, THEN conjunct2, THEN conjunct2, THEN conjunct2,
      THEN conjunct1]
  have g1: "fetchAllPatients ?env ''key'' ''https://api'' []
     = (Inr [example_patient ''A'', example_patient ''B'', example_patient ''C''],
      [Fetch (page_request ''key'' ''https://api'' 1 5), Sleep 500,
       Fetch (page_request ''key'' ''https://api'' 2 5)])"
    unfolding th by (simp add: RATE_LIMIT_DELAY_def upt_rec numeral_2_eq_2)
  have g2: "fetches (snd (fetchAllPatients ?env ''key'' ''https://api'' []))
     = [\<lparr>http_method = ''GET'', url = ''https://api/patients?page=1&limit=5'',
         headers = [(''x-api-key'', ''key'')], body = None\<rparr>,
        \<lparr>http_method = ''GET'', url = ''https://api/patients?page=2&limit=5'',
         headers = [(''x-api-key'', ''key'')], body = None\<rparr>]"
    unfolding urls by (simp add: upt_rec numeral_2_eq_2 decimal_small)
  have g3: "page_request ''key'' ''https://api'' 12 5
     = \<lparr>http_method = ''GET'', url = ''https://api/patients?page=12&limit=5'',
        headers = [(''x-api-key'', ''key'')], body = None\<rparr>"
    unfolding pr by (simp add: decimal_small)
  have g4: "url (page_request ''key'' ''https://api'' 1 5)
              \<noteq> url (page_request ''key'' ''https://api'' 2 5)"
    using inj by auto
  show ?thesis
    by (intro conjI) (rule g1 g2 g3 g4)+
qed

text \<open>
  C7: a successful page response that is a JSON object without a \<open>data\<close> array makes
  \<open>fetchPatientsPage\<close> return an envelope with no records, with the pagination of the
  response when it has one and otherwise a pagination with \<open>totalPages = 1\<close>. A run of
  \<open>fetchAllPatients\<close> in which every page request is answered by a successful JSON object,
  some of them without a \<open>data\<close> array, completes; such a page contributes no records.
\<close>

theorem missing_data_page_is_empty:
  "(respond env (length (fetches tr)) (page_request k u p l) = Response r
    \<and> ok r \<and> json r = Inr (Object None pg md)
    \<longrightarrow> fetchPatientsPage env k u p l tr =
          (Inr \<lparr>data = [],
                pagination =
                  (case pg of
                     Some q \<Rightarrow> Some q
                   | None \<Rightarrow>
                       Some \<lparr>page = int p, limit = int l, total = 0, totalPages = 1,
                             hasNext = False, hasPrevious = False\<rparr>),
                metadata =
                  (case md of
                     Some m \<Rightarrow> Some m
                   | None \<Rightarrow>
                       Some \<lparr>timestamp = now env, version = ''v1.0'',
                             requestId = ''unknown''\<rparr>)\<rparr>,
           tr @ [Fetch (page_request k u p l)])
        \<and> (attempt < 5 \<longrightarrow>
             fetchPatientsPage_loop env k u p l attempt le tr =
             (Inr \<lparr>data = [],
                pagination =
                  (case pg of
                     Some q \<Rightarrow> Some q
                   | None \<Rightarrow>
                       Some \<lparr>page = int p, limit = int l, total = 0, totalPages = 1,
                             hasNext = False, hasPrevious = False\<rparr>),
                metadata =
                  (case md of
                     Some m \<Rightarrow> Some m
                   | None \<Rightarrow>
                       Some \<lparr>timestamp = now env, version = ''v1.0'',
                             requestId = ''unknown''\<rparr>)\<rparr>,
           tr @ [Fetch (page_request k u p l)])))
   \<and> (1 \<le> N \<and> j < N
       \<and> (\<forall>i<N. respond env (length (fetches tr) + i) (page_request k u (Suc i) 5)
                    = Response (rsp i)
                 \<and> ok (rsp i) \<and> json (rsp i) = Inr (Object (d i) (pgs i) (mds i)))
       \<and> d j = None \<and> totalPages_or_1 (pgs 0) = int N
       \<longrightarrow> fetchAllPatients env k u tr =
             (Inr (concat (map (\<lambda>i. records_of (d i)) [0..<N])),
              tr @ Fetch (page_request k u 1 5)
                 # concat (map (\<lambda>i. [Sleep 500, Fetch (page_request k u (Suc i) 5)]) [1..<N]))
           \<and> records_of (d j) = []
           \<and> length (fetches (snd (fetchAllPatients env k u tr))) = length (fetches tr) + N)"
proof -
  have a: "fetchPatientsPage env k u p l tr =
          (Inr \<lparr>data = [],
                pagination =
                  (case pg of
                     Some q \<Rightarrow> Some q
                   | None \<Rightarrow>
                       Some \<lparr>page = int p, limit = int l, total = 0, totalPages = 1,
                             hasNext = False, hasPrevious = False\<rparr>),
                metadata =
                  (case md of
                     Some m \<Rightarrow> Some m
                   | None \<Rightarrow>
                       Some \<lparr>timestamp = now env, version = ''v1.0'',
                             requestId = ''unknown''\<rparr>)\<rparr>,
           tr @ [Fetch (page_request k u p l)])
        \<and> (attempt < 5 \<longrightarrow>
             fetchPatientsPage_loop env k u p l attempt le tr =
             (Inr \<lparr>data = [],
                pagination =
                  (case pg of
                     Some q \<Rightarrow> Some q
                   | None \<Rightarrow>
                       Some \<lparr>page = int p, limit = int l, total = 0, totalPages = 1,
                             hasNext = False, hasPrevious = False\<rparr>),
                metadata =
                  (case md of
                     Some m \<Rightarrow> Some m
                   | None \<Rightarrow>
                       Some \<lparr>timestamp = now env, version = ''v1.0'',
                             requestId = ''unknown''\<rparr>)\<rparr>,
           tr @ [Fetch (page_request k u p l)]))"
    if h: "respond env (length (fetches tr)) (page_request k u p l) = Response r"
      "ok r" "json r = Inr (Object None pg md)"
  proof -
    have five: "(0::nat) < 5" by simp
    show ?thesis
      unfolding fetchPatientsPage_def
      using page_loop_no_data[OF five h, of None] page_loop_no_data[OF _ h, of attempt le]
      by simp
  qed
  have b: "fetchAllPatients env k u tr =
             (Inr (concat (map (\<lambda>i. records_of (d i)) [0..<N])),
              tr @ Fetch (page_request k u 1 5)
                 # concat (map (\<lambda>i. [Sleep 500, Fetch (page_request k u (Suc i) 5)]) [1..<N]))
           \<and> records_of (d j) = []
           \<and> length (fetches (snd (fetchAllPatients env k u tr))) = length (fetches tr) + N"
    if h: "1 \<le> N" "j < N"
      "\<forall>i<N. respond env (length (fetches tr) + i) (page_request k u (Suc i) 5)
                    = Response (rsp i)
                 \<and> ok (rsp i) \<and> json (rsp i) = Inr (Object (d i) (pgs i) (mds i))"
      "d j = None" "totalPages_or_1 (pgs 0) = int N"
  proof -
    have N: "0 < N" using h(1) by simp
    note e = all_pages_run[OF h(1) h(3) h(5)]
    have f: "length (fetches (snd (fetchAllPatients env k u tr))) = length (fetches tr) + N"
      unfolding e using N by (simp add: fetches_pages)
    show ?thesis
      using e f h(4) by (simp add: records_of_def)
  qed
  show ?thesis
    using a b by blast
qed

theorem missing_data_page_is_empty_witness:
  "fetchAllPatients
     (scripted
        [ok_json (Object (Some [example_patient ''A''])
                    (Some (example_pagination 1 3)) None),
         ok_json (Object None (Some (example_pagination 2 3)) None),
         ok_json (Object (Some [example_patient ''C'']) (Some (example_pagination 3 3)) None)]
        (status_only 404 ''Not Found''))
     ''key'' ''https://api'' []
   = (Inr [example_patient ''A'', example_patient ''C''],
      [Fetch (page_request ''key'' ''https://api'' 1 5), Sleep 500,
       Fetch (page_request ''key'' ''https://api'' 2 5), Sleep 500,
       Fetch (page_request ''key'' ''https://api'' 3 5)])
   \<and> fst (fetchPatientsPage (scripted [ok_json (Object None None None)] (status_only 404 ''Not Found''))
            ''key'' ''https://api'' 1 5 [])
     = Inr \<lparr>data = [],
            pagination = Some \<lparr>page = 1, limit = 5, total = 0, totalPages = 1,
                                hasNext = False, hasPrevious = False\<rparr>,
            metadata = Some \<lparr>timestamp = ''2024-01-01T00:00:00.000Z'', version = ''v1.0'',
                              requestId = ''unknown''\<rparr>\<rparr>"
proof -
  let ?b0 = "Object (Some [example_patient ''A'']) (Some (example_pagination 1 3)) None"
  let ?b1 = "Object None (Some (example_pagination 2 3)) None"
  let ?b2 = "Object (Some [example_patient ''C'']) (Some (example_pagination 3 3)) None"
  let ?env = "scripted [ok_json ?b0, ok_json ?b1, ok_json ?b2] (status_only 404 ''Not Found'')"
  let ?r = "\<lambda>i::nat. \<lparr>status = 200, statusText = ''OK'', bodyText = ''{}'',
                       json = Inr ([?b0, ?b1, ?b2] ! i)\<rparr>"
  let ?d = "\<lambda>i::nat. [Some [example_patient ''A''], None, Some [example_patient ''C'']] ! i"
  let ?pg = "\<lambda>i::nat. [Some (example_pagination 1 3), Some (example_pagination 2 3),
                       Some (example_pagination 3 3)] ! i"
  let ?md = "\<lambda>i::nat. None :: Metadata option"
  have three: "i < 3 \<longleftrightarrow> i = 0 \<or> i = 1 \<or> i = 2" for i :: nat by auto
  have h: "\<forall>i<3. respond ?env (length (fetches []) + i) (page_request ''key'' ''https://api'' (Suc i) 5)
                  = Response (?r i)
              \<and> ok (?r i) \<and> json (?r i) = Inr (Object (?d i) (?pg i) (?md i))"
    by (auto simp: three scripted_def ok_json_def ok_def)
  have n: "(1::nat) \<le> 3" "(1::nat) < 3" by simp_all
  have p: "?d 1 = None" "totalPages_or_1 (?pg 0) = int 3"
    by (simp_all add: example_pagination_def totalPages_or_1_def)
  note th = missing_data_page_is_empty[where env = ?env and tr = "[]" and k = "''key''"
      and u = "''https://api''" and N = 3 and j = 1 and rsp = ?r and d = ?d and pgs = ?pg
      and mds = ?md, THEN conjunct2, THEN mp,
      OF conjI, OF n(1), OF conjI, OF n(2), OF conjI, OF h, OF conjI, OF p, THEN conjunct1]
  let ?env1 = "scripted [ok_json (Object None None None)] (status_only 404 ''Not Found'')"
  let ?r1 = "\<lparr>status = 200, statusText = ''OK'', bodyText = ''{}'',
              json = Inr (Object None None None)\<rparr>"
  have z: "(0::nat) < 5" by simp
  have h1: "respond ?env1 (length (fetches [])) (page_request ''key'' ''https://api'' 1 5)
              = Response ?r1" "ok ?r1" "json ?r1 = Inr (Object None None None)"
    by (simp_all add: scripted_def ok_json_def ok_def)
  note th1 = missing_data_page_is_empty[where env = ?env1 and tr = "[]" and k = "''key''"
      and u = "''https://api''" and p = 1 and l = 5 and attempt = 0 and le = None
      and r = ?r1 and pg = None and md = None, THEN conjunct1, THEN mp,
      OF conjI, OF h1(1), OF conjI, OF h1(2) h1(3), THEN conjunct1]
  show ?thesis
    unfolding th th1
    by (simp add: upt_rec numeral_3_eq_3 numeral_2_eq_2 records_of_def scripted_def)
qed

end
